theory Spec2Isabelle
  imports Main
begin

section \<open>JavaScript values at the boundary\<close>

text \<open>
  Documents, extractions and error bodies travel as JSON and are typed \<open>any\<close> in the
  TypeScript sources. A parsed JSON value is a \<open>json\<close>; a parsed object holds every key
  once. No function below computes with a number, so numbers are kept as integers.
  \<open>undefined\<close> is \<open>None\<close> of \<open>json option\<close>.
\<close>

datatype json =
    JNull
  | JBool bool
  | JNum int
  | JStr string
  | JArr "json list"
  | JObj "(string \<times> json) list"

text \<open>What a thrown value is: \<open>Error\<close>, its subclass \<open>ApiError\<close> of \<open>lib/api.ts\<close>, and the
  engine's \<open>TypeError\<close> for a property read on \<open>null\<close>.\<close>

datatype exn =
    Error string
  | ApiError nat string string
  | TypeError
  | RangeError
  | SyntaxError
  | ZodError

text \<open>\<open>e instanceof Error\<close> holds of every value thrown here; \<open>e.message\<close> of an engine
  error is the engine's text and is left fixed.\<close>

fun message :: "exn \<Rightarrow> string" where
  "message (Error m) = m"
| "message (ApiError st txt m) = m"
| "message TypeError = ''Cannot read properties of null''"
| "message RangeError = ''The status provided is outside the range [200, 599].''"
| "message SyntaxError = ''Unexpected end of JSON input''"
| "message ZodError = ''Invalid input''"

text \<open>Property read \<open>v.k\<close>: throws on \<open>null\<close>, is \<open>undefined\<close> on a missing key and on
  every value that is not an object.\<close>

fun get_prop :: "json \<Rightarrow> string \<Rightarrow> exn + json option" where
  "get_prop JNull k = Inl TypeError"
| "get_prop (JObj kvs) k = Inr (map_of kvs k)"
| "get_prop v k = Inr None"

text \<open>JavaScript truthiness of a value that may be \<open>undefined\<close>.\<close>

fun truthy :: "json option \<Rightarrow> bool" where
  "truthy None = False"
| "truthy (Some JNull) = False"
| "truthy (Some (JBool b)) = b"
| "truthy (Some (JNum n)) = (n \<noteq> 0)"
| "truthy (Some (JStr s)) = (s \<noteq> [])"
| "truthy (Some (JArr xs)) = True"
| "truthy (Some (JObj kvs)) = True"

text \<open>\<open>a || d\<close> where \<open>d\<close> is a string literal.\<close>

definition or_else :: "json option \<Rightarrow> string \<Rightarrow> json" where
  "or_else a d = (if truthy a then the a else JStr d)"

section \<open>lib/types.ts and components/StatusBadge.tsx\<close>

text \<open>
  \<open>DocumentStatus\<close> is a union of string literals and \<open>statusConfig\<close> an object keyed by
  them; the members of the type are listed, and the lookup is modelled on strings, where a
  missing key reads \<open>undefined\<close>.
\<close>

definition DocumentStatus :: "string list" where
  "DocumentStatus = [''uploaded'', ''redacting'', ''redacted'', ''approved'', ''rejected'']"

record status_entry =
  label :: string
  className :: string

definition statusConfig :: "(string \<times> status_entry) list" where
  "statusConfig =
    [(''uploaded'', \<lparr>label = ''Uploaded'', className = ''bg-blue-50 text-blue-700''\<rparr>),
     (''redacting'', \<lparr>label = ''Processing'', className = ''bg-yellow-50 text-yellow-700''\<rparr>),
     (''redacted'', \<lparr>label = ''Ready for Review'', className = ''bg-green-50 text-green-700''\<rparr>),
     (''approved'', \<lparr>label = ''Approved'', className = ''bg-purple-50 text-purple-700''\<rparr>),
     (''rejected'', \<lparr>label = ''Rejected'', className = ''bg-red-50 text-red-700''\<rparr>)]"

text \<open>The statuses of a document in the specification's data model.\<close>

definition spec_statuses :: "string list" where
  "spec_statuses =
    [''uploaded'', ''redacting'', ''redacted'', ''redaction_failed'', ''approved'', ''rejected'']"

text \<open>The rendered \<open>span\<close>: the class names handed to \<open>cn\<close>, and the text.\<close>

record badge =
  badge_classes :: "string list"
  badge_text :: string

text \<open>\<open>config.className\<close> on an \<open>undefined\<close> config throws.\<close>

definition StatusBadge :: "string \<Rightarrow> string option \<Rightarrow> exn + badge" where
  "StatusBadge status cls =
    (case map_of statusConfig status of
       None \<Rightarrow> Inl TypeError
     | Some config \<Rightarrow>
         Inr \<lparr>badge_classes =
                ''inline-flex items-center px-3 py-1 rounded-lg text-sm font-medium''
                # className config # (case cls of None \<Rightarrow> [] | Some c \<Rightarrow> [c]),
              badge_text = label config\<rparr>)"

section \<open>components/ExtractionCard.tsx\<close>

text \<open>
  The five fields are \<open>string | null\<close> and \<open>number | null\<close>. The numbers are IEEE
  doubles formatted by \<open>Intl.NumberFormat\<close>; the model leaves the number type \<open>'n\<close> open
  and takes the formatter and the test \<open>v && v < 0\<close> as parameters.
\<close>

record 'n extracted_fields =
  filing_status :: "string option"
  w2_wages :: "'n option"
  total_deductions :: "'n option"
  ira_distributions_total :: "'n option"
  capital_gain_or_loss :: "'n option"

datatype extraction_status = extracting | completed | failed | not_started

record 'n number_ops =
  currency_format :: "'n \<Rightarrow> string"
  nonzero_negative :: "'n \<Rightarrow> bool"

datatype card =
    ExtractingCard
  | FailedCard string
  | NotStartedCard
  | FieldsCard "(string \<times> string \<times> string) list"

definition formatCurrency :: "'n number_ops \<Rightarrow> 'n option \<Rightarrow> string" where
  "formatCurrency ops v = (case v of None \<Rightarrow> ''N/A'' | Some x \<Rightarrow> currency_format ops x)"

text \<open>A row of the completed card: heading, class of the value, value.\<close>

definition ExtractionCard ::
  "'n number_ops \<Rightarrow> 'n extracted_fields \<Rightarrow> extraction_status option \<Rightarrow> string option \<Rightarrow> card"
where
  "ExtractionCard ops extractedFields status error =
    (if status = Some extracting then ExtractingCard
     else if status = Some failed then
       FailedCard (case error of
                     None \<Rightarrow> ''Unable to extract tax fields from this document''
                   | Some e \<Rightarrow> if e = [] then ''Unable to extract tax fields from this document'' else e)
     else if status = Some not_started then NotStartedCard
     else FieldsCard
       [(''Filing Status'', ''text-sm font-medium text-gray-900 dark:text-white'',
           (case filing_status extractedFields of
              None \<Rightarrow> ''N/A'' | Some s \<Rightarrow> if s = [] then ''N/A'' else s)),
        (''W-2 Wages'', ''text-sm font-medium text-gray-900 dark:text-white'',
           formatCurrency ops (w2_wages extractedFields)),
        (''Total Deductions'', ''text-sm font-medium text-gray-900 dark:text-white'',
           formatCurrency ops (total_deductions extractedFields)),
        (''IRA Distributions'', ''text-sm font-medium text-gray-900 dark:text-white'',
           formatCurrency ops (ira_distributions_total extractedFields)),
        (''Capital Gain/Loss'',
           (case capital_gain_or_loss extractedFields of
              None \<Rightarrow> ''text-sm font-medium text-green-600 dark:text-green-400''
            | Some v \<Rightarrow> if nonzero_negative ops v then ''text-sm font-medium text-red-600 dark:text-red-400''
                else ''text-sm font-medium text-green-600 dark:text-green-400''),
           formatCurrency ops (capital_gain_or_loss extractedFields))])"

text \<open>The heading and the value of each row, in order.\<close>

definition shown_fields :: "card \<Rightarrow> (string \<times> string) list option" where
  "shown_fields c =
    (case c of FieldsCard rows \<Rightarrow> Some (map (\<lambda>(h, _, v). (h, v)) rows) | _ \<Rightarrow> None)"

definition is_failed_card :: "card \<Rightarrow> bool" where
  "is_failed_card c = (case c of FailedCard _ \<Rightarrow> True | _ \<Rightarrow> False)"

section \<open>HTTP, the network and the effects of a run\<close>

datatype http_method = GET | POST | DELETE

record js_file =
  file_name :: string
  file_type :: string
  file_size :: nat

datatype req_body = JsonText json | FormData "(string \<times> js_file) list"

record request =
  req_method :: http_method
  req_url :: string
  req_headers :: "(string \<times> string) list"
  req_body :: "req_body option"

text \<open>
  What \<open>await fetch(...)\<close> gives: the promise rejects, or resolves to a response with its
  status, what \<open>response.json()\<close> settles to (it rejects on a body that is not JSON) and
  the bytes of \<open>response.arrayBuffer()\<close>.
\<close>

record fetched =
  f_status :: nat
  f_statusText :: string
  f_json :: "exn + json"
  f_bytes :: "nat list"

datatype fetch_result = NetworkFailure exn | Fetched fetched

definition ok :: "fetched \<Rightarrow> bool" where
  "ok r = (200 \<le> f_status r \<and> f_status r \<le> 299)"

datatype toast_kind = toast_error | toast_success | toast_loading

datatype effect =
    Fetch request fetch_result
  | Limit string string
  | Sleep nat
  | Toast toast_kind string
  | SetIsUploading bool
  | SetIsDragging bool
  | PreventDefault
  | ResetInput
  | OnUploadComplete
  | RouterPush string
  | LoadPreview
  | SetTimeout nat effect
  | OnProgress "json option" "effect list"

text \<open>
  Everything outside the running function (the backend's database and buckets, the rate
  limiter's Redis) is one store \<open>'s\<close>; a run threads it and appends what it did to a log.
\<close>

record 's world =
  store :: 's
  log :: "effect list"

type_synonym 's net = "request \<Rightarrow> 's \<Rightarrow> fetch_result \<times> 's"

definition fetch :: "'s net \<Rightarrow> request \<Rightarrow> 's world \<Rightarrow> fetch_result \<times> 's world" where
  "fetch nt rq w =
    (case nt rq (store w) of
       (r, s') \<Rightarrow> (r, \<lparr>store = s', log = log w @ [Fetch rq r]\<rparr>))"

text \<open>The requests a run sent itself, in order (what a callback did is inside its
  \<open>OnProgress\<close> entry).\<close>

fun requests :: "effect list \<Rightarrow> request list" where
  "requests [] = []"
| "requests (Fetch rq r # es) = rq # requests es"
| "requests (e # es) = requests es"

section \<open>The route handlers of the Next.js server (app/api)\<close>

record user =
  user_email :: "string option"
  user_name :: "string option"

record session =
  session_user :: "user option"

record limit_result =
  rl_success :: bool
  rl_limit :: nat
  rl_remaining :: nat
  rl_reset :: nat

text \<open>
  The environment of a handler: what \<open>auth()\<close> resolves to, \<open>NEXTAUTH_SECRET\<close>,
  \<open>BACKEND_URL\<close>, the signing of \<open>jsonwebtoken\<close>, the Upstash limiter (by prefix and
  key), the network behind the global \<open>fetch\<close>, the issue list of a failed zod parse, and
  the library conversions \<open>Number.toString\<close>,
  \<open>Date.toISOString\<close> and \<open>String(v)\<close> of a value that is not a string.
\<close>

record 's server_env =
  auth :: "session option"
  NEXTAUTH_SECRET :: "string option"
  BACKEND_URL :: string
  jwt_sign :: "string \<Rightarrow> string \<Rightarrow> string"
  limiter :: "string \<Rightarrow> string \<Rightarrow> 's \<Rightarrow> limit_result \<times> 's"
  network :: "'s net"
  zod_issues :: "json \<Rightarrow> json"
  toString :: "nat \<Rightarrow> string"
  toISOString :: "nat \<Rightarrow> string"
  String_other :: "json option \<Rightarrow> string"

text \<open>\<open>session?.user?.email\<close> when it is truthy.\<close>

definition session_email :: "session option \<Rightarrow> string option" where
  "session_email s =
    (case s of
       None \<Rightarrow> None
     | Some ss \<Rightarrow>
         (case session_user ss of
            None \<Rightarrow> None
          | Some u \<Rightarrow>
              (case user_email u of
                 None \<Rightarrow> None
               | Some e \<Rightarrow> if e = [] then None else Some e)))"

definition ratelimit :: "'s server_env \<Rightarrow> string \<Rightarrow> string \<Rightarrow> 's world \<Rightarrow> limit_result \<times> 's world"
where
  "ratelimit env prefix key w =
    (case limiter env prefix key (store w) of
       (r, s') \<Rightarrow> (r, \<lparr>store = s', log = log w @ [Limit prefix key]\<rparr>))"

text \<open>lib/jwt.ts\<close>

definition createBackendToken :: "'s server_env \<Rightarrow> string \<Rightarrow> exn + string" where
  "createBackendToken env userEmail =
    (case NEXTAUTH_SECRET env of
       None \<Rightarrow> Inl (Error ''NEXTAUTH_SECRET is not configured'')
     | Some secret \<Rightarrow>
         if secret = [] then Inl (Error ''NEXTAUTH_SECRET is not configured'')
         else Inr (jwt_sign env userEmail secret))"

datatype payload = JsonPayload json | BinaryPayload "nat list"

record response =
  res_status :: nat
  res_headers :: "(string \<times> string) list"
  res_payload :: payload

text \<open>A response with a JSON body.\<close>

definition json_response :: "json \<Rightarrow> nat \<Rightarrow> response" where
  "json_response data st = \<lparr>res_status = st, res_headers = [], res_payload = JsonPayload data\<rparr>"

text \<open>
  \<open>NextResponse.json(data, { status })\<close> is the \<open>Response\<close> constructor with a body: it
  throws a \<open>RangeError\<close> for a status outside 200..599 and a \<open>TypeError\<close> for a status
  that cannot carry a body (204, 205, 304). The handlers call it with the literal statuses
  400, 401, 429 and 500 and with no status (200), where it returns the response, and with
  \<open>response.status\<close> of the backend, where it may throw inside the \<open>try\<close>.
\<close>

definition can_carry_body :: "nat \<Rightarrow> bool" where
  "can_carry_body st = (200 \<le> st \<and> st \<le> 599 \<and> st \<noteq> 204 \<and> st \<noteq> 205 \<and> st \<noteq> 304)"

definition NextResponse_json :: "json \<Rightarrow> nat \<Rightarrow> exn + response" where
  "NextResponse_json data st =
    (if st < 200 \<or> 599 < st then Inl RangeError
     else if st = 204 \<or> st = 205 \<or> st = 304 then Inl TypeError
     else Inr (json_response data st))"

definition error_body :: "json \<Rightarrow> json" where
  "error_body m = JObj [(''error'', m)]"

definition unauthorized :: "string \<Rightarrow> response" where
  "unauthorized m = json_response (error_body (JStr m)) 401"

text \<open>The two shapes of the outer \<open>catch\<close>: with and without \<open>details\<close>.\<close>

definition internal_error :: response where
  "internal_error = json_response (error_body (JStr ''Internal server error'')) 500"

definition internal_error_details :: "exn \<Rightarrow> response" where
  "internal_error_details e =
    json_response
      (JObj [(''error'', JStr ''Internal server error''), (''details'', JStr (message e))]) 500"

definition bearer :: "string \<Rightarrow> (string \<times> string) list" where
  "bearer token =
    [(''Authorization'', ''Bearer '' @ token), (''Content-Type'', ''application/json'')]"

text \<open>
  The tail shared, line for line, by the handlers that wrap a backend error:
  \<open>data = await response.json()\<close>, then \<open>{ error: data.detail || fallback }\<close> with the
  backend's status when \<open>!response.ok\<close>, else \<open>NextResponse.json(data)\<close>. It yields the
  thrown value when one of its steps throws.
\<close>

definition wrap_backend :: "string \<Rightarrow> fetch_result \<Rightarrow> exn + response" where
  "wrap_backend fallback fr =
    (case fr of
       NetworkFailure e \<Rightarrow> Inl e
     | Fetched r \<Rightarrow>
         (case f_json r of
            Inl e \<Rightarrow> Inl e
          | Inr data \<Rightarrow>
              if \<not> ok r then
                (case get_prop data ''detail'' of
                   Inl e \<Rightarrow> Inl e
                 | Inr d \<Rightarrow> NextResponse_json (error_body (or_else d fallback)) (f_status r))
              else Inr (json_response data 200)))"

definition caught :: "exn + response \<Rightarrow> response" where
  "caught r = (case r of Inl e \<Rightarrow> internal_error | Inr x \<Rightarrow> x)"

definition caught_details :: "exn + response \<Rightarrow> response" where
  "caught_details r = (case r of Inl e \<Rightarrow> internal_error_details e | Inr x \<Rightarrow> x)"

text \<open>app/api/documents/[id]/route.ts\<close>

definition GET_documents_id :: "'s server_env \<Rightarrow> string \<Rightarrow> 's world \<Rightarrow> response \<times> 's world" where
  "GET_documents_id env ident w =
    (case session_email (auth env) of
       None \<Rightarrow> (unauthorized ''Unauthorized'', w)
     | Some email \<Rightarrow>
         (case createBackendToken env email of
            Inl e \<Rightarrow> (internal_error, w)
          | Inr backendToken \<Rightarrow>
              (case fetch (network env)
                      \<lparr>req_method = GET, req_url = BACKEND_URL env @ ''/documents/'' @ ident,
                       req_headers = bearer backendToken, req_body = None\<rparr> w of
                 (fr, w') \<Rightarrow> (caught (wrap_backend ''Failed to fetch document'' fr), w'))))"

definition DELETE_documents_id ::
  "'s server_env \<Rightarrow> string \<Rightarrow> 's world \<Rightarrow> response \<times> 's world"
where
  "DELETE_documents_id env ident w =
    (case session_email (auth env) of
       None \<Rightarrow> (unauthorized ''Unauthorized'', w)
     | Some email \<Rightarrow>
         (case createBackendToken env email of
            Inl e \<Rightarrow> (internal_error, w)
          | Inr backendToken \<Rightarrow>
              (case fetch (network env)
                      \<lparr>req_method = DELETE, req_url = BACKEND_URL env @ ''/documents/'' @ ident,
                       req_headers = bearer backendToken, req_body = None\<rparr> w of
                 (fr, w') \<Rightarrow> (caught (wrap_backend ''Failed to delete document'' fr), w'))))"

text \<open>JavaScript \<open>String(v)\<close>, as a template literal and \<open>fetch\<close> apply it.\<close>

definition js_String :: "'s server_env \<Rightarrow> json option \<Rightarrow> string" where
  "js_String env v = (case v of Some (JStr s) \<Rightarrow> s | _ \<Rightarrow> String_other env v)"

text \<open>What the handlers read from the incoming request.\<close>

definition formData :: "request \<Rightarrow> exn + (string \<times> js_file) list" where
  "formData rq = (case req_body rq of Some (FormData fd) \<Rightarrow> Inr fd | _ \<Rightarrow> Inl TypeError)"

definition request_json :: "request \<Rightarrow> exn + json" where
  "request_json rq = (case req_body rq of Some (JsonText j) \<Rightarrow> Inr j | _ \<Rightarrow> Inl SyntaxError)"

fun str_includes :: "string \<Rightarrow> string \<Rightarrow> bool" where
  "str_includes [] p = (p = [])"
| "str_includes (c # cs) p = (take (length p) (c # cs) = p \<or> str_includes cs p)"

definition too_many_requests :: response where
  "too_many_requests =
    json_response (error_body (JStr ''Too many requests. Please try again later.'')) 429"

text \<open>The tail of the handlers that hand the backend's answer on as it is:
  \<open>NextResponse.json(data, { status: response.status })\<close>.\<close>

definition pass_backend :: "fetch_result \<Rightarrow> exn + response" where
  "pass_backend fr =
    (case fr of
       NetworkFailure e \<Rightarrow> Inl e
     | Fetched r \<Rightarrow>
         (case f_json r of
            Inl e \<Rightarrow> Inl e
          | Inr data \<Rightarrow> NextResponse_json data (f_status r)))"

text \<open>The upload proxy (\<open>POST\<close>, limiter \<open>uploadRatelimit\<close>).\<close>

definition POST_upload :: "'s server_env \<Rightarrow> request \<Rightarrow> 's world \<Rightarrow> response \<times> 's world" where
  "POST_upload env req w =
    (case session_email (auth env) of
       None \<Rightarrow> (unauthorized ''Unauthorized'', w)
     | Some email \<Rightarrow>
         (case ratelimit env ''filevault:upload'' email w of
            (rl, w1) \<Rightarrow>
              if \<not> rl_success rl then
                (\<lparr>res_status = 429,
                  res_headers =
                    [(''X-RateLimit-Limit'', toString env (rl_limit rl)),
                     (''X-RateLimit-Remaining'', toString env (rl_remaining rl)),
                     (''X-RateLimit-Reset'', toString env (rl_reset rl))],
                  res_payload = JsonPayload
                    (JObj [(''error'', JStr ''Too many upload requests. Please try again later.''),
                           (''limit'', JNum (int (rl_limit rl))),
                           (''remaining'', JNum (int (rl_remaining rl))),
                           (''resetAt'', JStr (toISOString env (rl_reset rl)))])\<rparr>, w1)
              else
                (case createBackendToken env email of
                   Inl e \<Rightarrow> (internal_error, w1)
                 | Inr backendToken \<Rightarrow>
                     (case formData req of
                        Inl e \<Rightarrow> (internal_error, w1)
                      | Inr fd \<Rightarrow>
                          (case fetch (network env)
                                  \<lparr>req_method = POST, req_url = BACKEND_URL env @ ''/upload/'',
                                   req_headers = [(''Authorization'', ''Bearer '' @ backendToken)],
                                   req_body = Some (FormData fd)\<rparr> w1 of
                             (fr, w2) \<Rightarrow> (caught (wrap_backend ''Upload failed'' fr), w2))))))"

text \<open>The list and sync proxies.\<close>

definition GET_documents :: "'s server_env \<Rightarrow> 's world \<Rightarrow> response \<times> 's world" where
  "GET_documents env w =
    (case session_email (auth env) of
       None \<Rightarrow> (unauthorized ''Unauthorized'', w)
     | Some email \<Rightarrow>
         (case createBackendToken env email of
            Inl e \<Rightarrow> (internal_error, w)
          | Inr backendToken \<Rightarrow>
              (case fetch (network env)
                      \<lparr>req_method = GET, req_url = BACKEND_URL env @ ''/documents/'',
                       req_headers = bearer backendToken, req_body = None\<rparr> w of
                 (fr, w') \<Rightarrow> (caught (wrap_backend ''Failed to fetch documents'' fr), w'))))"

definition POST_documents_sync :: "'s server_env \<Rightarrow> 's world \<Rightarrow> response \<times> 's world" where
  "POST_documents_sync env w =
    (case session_email (auth env) of
       None \<Rightarrow> (unauthorized ''Unauthorized'', w)
     | Some email \<Rightarrow>
         (case createBackendToken env email of
            Inl e \<Rightarrow> (internal_error, w)
          | Inr backendToken \<Rightarrow>
              (case fetch (network env)
                      \<lparr>req_method = POST, req_url = BACKEND_URL env @ ''/documents/sync'',
                       req_headers = bearer backendToken, req_body = None\<rparr> w of
                 (fr, w') \<Rightarrow> (caught (wrap_backend ''Failed to sync documents'' fr), w'))))"

text \<open>The approve proxy (``Document Approval API Route'').\<close>

definition POST_approve :: "'s server_env \<Rightarrow> string \<Rightarrow> 's world \<Rightarrow> response \<times> 's world" where
  "POST_approve env ident w =
    (case session_email (auth env) of
       None \<Rightarrow> (unauthorized ''Unauthorized - Please sign in'', w)
     | Some email \<Rightarrow>
         (case ratelimit env ''filevault'' email w of
            (rl, w1) \<Rightarrow>
              if \<not> rl_success rl then (too_many_requests, w1)
              else
                (case createBackendToken env email of
                   Inl e \<Rightarrow> (internal_error_details e, w1)
                 | Inr backendToken \<Rightarrow>
                     (case fetch (network env)
                             \<lparr>req_method = POST,
                              req_url = BACKEND_URL env @ ''/approval/'' @ ident @ ''/approve'',
                              req_headers = bearer backendToken, req_body = None\<rparr> w1 of
                        (fr, w2) \<Rightarrow> (caught_details (pass_backend fr), w2)))))"

text \<open>app/api/approval/reject/[id]/route.ts\<close>

definition POST_reject :: "'s server_env \<Rightarrow> string \<Rightarrow> 's world \<Rightarrow> response \<times> 's world" where
  "POST_reject env ident w =
    (case session_email (auth env) of
       None \<Rightarrow> (unauthorized ''Unauthorized'', w)
     | Some email \<Rightarrow>
         (case createBackendToken env email of
            Inl e \<Rightarrow> (internal_error, w)
          | Inr backendToken \<Rightarrow>
              (case fetch (network env)
                      \<lparr>req_method = POST,
                       req_url = BACKEND_URL env @ ''/approval/reject/'' @ ident,
                       req_headers = bearer backendToken, req_body = None\<rparr> w of
                 (fr, w') \<Rightarrow> (caught (wrap_backend ''Failed to reject document'' fr), w'))))"

text \<open>
  The reject proxy with a validated reason (``Document Rejection API Route'').
  \<open>RejectReasonSchema\<close> is \<open>z.object({ reason: z.string().max(500).optional() })\<close>: the
  parse throws a \<open>ZodError\<close> unless the value is an object whose \<open>reason\<close> is missing or a
  string of at most 500 characters, and gives the reason.
\<close>

definition RejectReasonSchema_parse :: "json \<Rightarrow> exn + string option" where
  "RejectReasonSchema_parse v =
    (case v of
       JObj kvs \<Rightarrow>
         (case map_of kvs ''reason'' of
            None \<Rightarrow> Inr None
          | Some (JStr s) \<Rightarrow> if length s \<le> 500 then Inr (Some s) else Inl ZodError
          | Some _ \<Rightarrow> Inl ZodError)
     | _ \<Rightarrow> Inl ZodError)"

definition POST_reject_reason ::
  "'s server_env \<Rightarrow> request \<Rightarrow> string \<Rightarrow> 's world \<Rightarrow> response \<times> 's world"
where
  "POST_reject_reason env request ident w =
    (case session_email (auth env) of
       None \<Rightarrow> (unauthorized ''Unauthorized - Please sign in'', w)
     | Some email \<Rightarrow>
         (case ratelimit env ''filevault'' email w of
            (rl, w1) \<Rightarrow>
              if \<not> rl_success rl then (too_many_requests, w1)
              else
                (case (case request_json request of
                         Inl e \<Rightarrow> Inr None
                       | Inr requestBody \<Rightarrow>
                           (case RejectReasonSchema_parse requestBody of
                              Inl e \<Rightarrow> Inl requestBody
                            | Inr None \<Rightarrow> Inr None
                            | Inr (Some reason) \<Rightarrow>
                                if reason \<noteq> [] then
                                  Inr (Some (JsonText (JObj [(''reason'', JStr reason)])))
                                else Inr None)) of
                   Inl bad \<Rightarrow>
                     (json_response
                        (JObj [(''error'', JStr ''Invalid input''), (''details'', zod_issues env bad)])
                        400, w1)
                 | Inr body \<Rightarrow>
                     (case createBackendToken env email of
                        Inl e \<Rightarrow> (internal_error_details e, w1)
                      | Inr backendToken \<Rightarrow>
                          (case fetch (network env)
                                  \<lparr>req_method = POST,
                                   req_url = BACKEND_URL env @ ''/approval/'' @ ident @ ''/reject'',
                                   req_headers = bearer backendToken, req_body = body\<rparr> w1 of
                             (fr, w2) \<Rightarrow> (caught_details (pass_backend fr), w2))))))"

text \<open>app/api/approval/pdf/[id]/route.ts\<close>

definition GET_pdf :: "'s server_env \<Rightarrow> string \<Rightarrow> 's world \<Rightarrow> response \<times> 's world" where
  "GET_pdf env ident w =
    (case session_email (auth env) of
       None \<Rightarrow> (unauthorized ''Unauthorized'', w)
     | Some email \<Rightarrow>
         (case createBackendToken env email of
            Inl e \<Rightarrow> (internal_error, w)
          | Inr backendToken \<Rightarrow>
              (case fetch (network env)
                      \<lparr>req_method = GET,
                       req_url = BACKEND_URL env @ ''/approval/preview/'' @ ident,
                       req_headers = bearer backendToken, req_body = None\<rparr> w of
                 (NetworkFailure e, w1) \<Rightarrow> (internal_error, w1)
               | (Fetched r, w1) \<Rightarrow>
                   if \<not> ok r then
                     (case f_json r of
                        Inl e \<Rightarrow> (internal_error, w1)
                      | Inr data \<Rightarrow>
                          (case get_prop data ''detail'' of
                             Inl e \<Rightarrow> (internal_error, w1)
                           | Inr d \<Rightarrow>
                               (caught
                                  (NextResponse_json
                                     (error_body (or_else d ''Failed to get preview''))
                                     (f_status r)), w1)))
                   else
                     (case f_json r of
                        Inl e \<Rightarrow> (internal_error, w1)
                      | Inr data \<Rightarrow>
                          (case get_prop data ''signed_url'' of
                             Inl e \<Rightarrow> (internal_error, w1)
                           | Inr signedUrl \<Rightarrow>
                               (case fetch (network env)
                                       \<lparr>req_method = GET, req_url = js_String env signedUrl,
                                        req_headers = [], req_body = None\<rparr> w1 of
                                  (NetworkFailure e, w2) \<Rightarrow> (internal_error, w2)
                                | (Fetched pdfResponse, w2) \<Rightarrow>
                                    if \<not> ok pdfResponse then
                                      (caught
                                         (NextResponse_json
                                            (error_body (JStr ''Failed to fetch PDF from storage''))
                                            (f_status pdfResponse)), w2)
                                    else
                                      (\<lparr>res_status = 200,
                                        res_headers =
                                          [(''Content-Type'', ''application/pdf''),
                                           (''Content-Length'',
                                              toString env (length (f_bytes pdfResponse))),
                                           (''Cache-Control'', ''private, max-age=900'')],
                                        res_payload = BinaryPayload (f_bytes pdfResponse)\<rparr>,
                                       w2)))))))"

text \<open>
  The approval proxy that takes \<open>documentId\<close> and \<open>action\<close> from the query string;
  \<open>documentIdRaw\<close> and \<open>actionRaw\<close> are what \<open>searchParams.get\<close> returns.
  \<open>DocumentIdSchema\<close> is \<open>z.string().min(1).max(255)\<close> and \<open>ActionSchema\<close> is
  \<open>z.enum(["approve", "reject"])\<close>.
\<close>

definition POST_approval ::
  "'s server_env \<Rightarrow> request \<Rightarrow> string option \<Rightarrow> string option \<Rightarrow> 's world
   \<Rightarrow> response \<times> 's world"
where
  "POST_approval env req documentIdRaw actionRaw w =
    (case session_email (auth env) of
       None \<Rightarrow> (unauthorized ''Unauthorized'', w)
     | Some email \<Rightarrow>
         (case ratelimit env ''filevault'' email w of
            (rl, w1) \<Rightarrow>
              if \<not> rl_success rl then (too_many_requests, w1)
              else
                (case (documentIdRaw, actionRaw) of
                   (Some documentId, Some action) \<Rightarrow>
                     if documentId = [] \<or> action = [] then
                       (json_response (error_body (JStr ''Missing documentId or action'')) 400,
                        w1)
                     else if \<not> (1 \<le> length documentId \<and> length documentId \<le> 255
                                \<and> (action = ''approve'' \<or> action = ''reject'')) then
                       (json_response
                          (error_body (JStr ''Invalid documentId or action format'')) 400, w1)
                     else
                       (case createBackendToken env email of
                          Inl e \<Rightarrow> (internal_error, w1)
                        | Inr backendToken \<Rightarrow>
                            (case (if action = ''reject'' then
                                     (case map_of (req_headers req) ''content-type'' of
                                        None \<Rightarrow> Inr None
                                      | Some contentType \<Rightarrow>
                                          if str_includes contentType ''application/json'' then
                                            (case request_json req of
                                               Inl e \<Rightarrow> Inl e
                                             | Inr j \<Rightarrow> Inr (Some (JsonText j)))
                                          else Inr None)
                                   else Inr None) of
                               Inl e \<Rightarrow> (internal_error, w1)
                             | Inr body \<Rightarrow>
                                 (case fetch (network env)
                                         \<lparr>req_method = POST,
                                          req_url = BACKEND_URL env @ ''/approval/'' @ documentId
                                                    @ ''/'' @ action,
                                          req_headers = bearer backendToken, req_body = body\<rparr>
                                         w1 of
                                    (fr, w2) \<Rightarrow>
                                      (caught
                                         (wrap_backend (''Failed to '' @ action @ '' document'') fr),
                                       w2))))
                 | _ \<Rightarrow>
                     (json_response (error_body (JStr ''Missing documentId or action'')) 400,
                      w1))))"

text \<open>The download proxy.\<close>

definition GET_download :: "'s server_env \<Rightarrow> string \<Rightarrow> 's world \<Rightarrow> response \<times> 's world" where
  "GET_download env ident w =
    (case session_email (auth env) of
       None \<Rightarrow> (unauthorized ''Unauthorized'', w)
     | Some email \<Rightarrow>
         (case createBackendToken env email of
            Inl e \<Rightarrow> (internal_error_details e, w)
          | Inr backendToken \<Rightarrow>
              (case fetch (network env)
                      \<lparr>req_method = GET,
                       req_url = BACKEND_URL env @ ''/approval/download/'' @ ident,
                       req_headers = bearer backendToken, req_body = None\<rparr> w of
                 (fr, w') \<Rightarrow>
                   (caught_details (wrap_backend ''Failed to get download URL'' fr), w'))))"

text \<open>
  File-system routing, for the handlers whose path under \<open>app/api\<close> is known: a dynamic
  segment \<open>[id]\<close> matches one non-empty path segment. A request to any other path is
  answered 404 by the framework.
\<close>

definition segment_after :: "string \<Rightarrow> string \<Rightarrow> string option" where
  "segment_after p u =
    (if take (length p) u = p \<and> drop (length p) u \<noteq> [] \<and> CHR ''/'' \<notin> set (drop (length p) u)
     then Some (drop (length p) u) else None)"

definition not_found :: response where
  "not_found = \<lparr>res_status = 404, res_headers = [], res_payload = BinaryPayload []\<rparr>"

definition route :: "'s server_env \<Rightarrow> request \<Rightarrow> 's world \<Rightarrow> response \<times> 's world" where
  "route env rq w =
    (case segment_after ''/api/documents/'' (req_url rq) of
       Some ident \<Rightarrow>
         (case req_method rq of
            GET \<Rightarrow> GET_documents_id env ident w
          | DELETE \<Rightarrow> DELETE_documents_id env ident w
          | POST \<Rightarrow> (not_found\<lparr>res_status := 405\<rparr>, w))
     | None \<Rightarrow>
         (case segment_after ''/api/approval/reject/'' (req_url rq) of
            Some ident \<Rightarrow>
              (case req_method rq of
                 POST \<Rightarrow> POST_reject env ident w
               | _ \<Rightarrow> (not_found\<lparr>res_status := 405\<rparr>, w))
          | None \<Rightarrow>
              (case segment_after ''/api/approval/pdf/'' (req_url rq) of
                 Some ident \<Rightarrow>
                   (case req_method rq of
                      GET \<Rightarrow> GET_pdf env ident w
                    | _ \<Rightarrow> (not_found\<lparr>res_status := 405\<rparr>, w))
               | None \<Rightarrow> (not_found, w))))"

text \<open>What the browser's \<open>fetch\<close> sees of a handler's response.\<close>

definition as_fetched :: "response \<Rightarrow> fetch_result" where
  "as_fetched r =
    Fetched \<lparr>f_status = res_status r, f_statusText = [],
             f_json = (case res_payload r of JsonPayload j \<Rightarrow> Inr j | BinaryPayload b \<Rightarrow> Inl SyntaxError),
             f_bytes = (case res_payload r of JsonPayload j \<Rightarrow> [] | BinaryPayload b \<Rightarrow> b)\<rparr>"

text \<open>The Next.js server as the network of the browser: its store is the server's world.\<close>

definition next_server :: "'s server_env \<Rightarrow> 's world net" where
  "next_server env rq w = (case route env rq w of (r, w') \<Rightarrow> (as_fetched r, w'))"

section \<open>The API client of the browser (lib/api.ts)\<close>

text \<open>
  The environment of the browser code: the network behind \<open>fetch\<close> (the Next.js server)
  and \<open>String(v)\<close> of a value that is not a string.
\<close>

record 'c client_env =
  c_net :: "'c net"
  c_String_other :: "json option \<Rightarrow> string"

definition c_String :: "'c client_env \<Rightarrow> json option \<Rightarrow> string" where
  "c_String env v = (case v of Some (JStr s) \<Rightarrow> s | _ \<Rightarrow> c_String_other env v)"

definition API_BASE_URL :: string where
  "API_BASE_URL = ''/api''"

text \<open>\<open>d.k1 || d.k2 || ...\<close>: the first truthy property, \<open>undefined\<close> when there is none.\<close>

fun first_truthy :: "json \<Rightarrow> string list \<Rightarrow> exn + json option" where
  "first_truthy d [] = Inr None"
| "first_truthy d (k # ks) =
     (case get_prop d k of
        Inl e \<Rightarrow> Inl e
      | Inr v \<Rightarrow> if truthy v then Inr v else first_truthy d ks)"

text \<open>
  The message of a response that is not ok:
  \<open>errorData = await response.json().catch(() => ({}))\<close>, then
  \<open>errorData.k1 || ... || fallback\<close>, converted by the \<open>Error\<close> constructor. The read
  throws when the body is \<open>null\<close>.
\<close>

definition error_message :: "'c client_env \<Rightarrow> string list \<Rightarrow> string \<Rightarrow> fetched \<Rightarrow> exn + string" where
  "error_message env keys fallback r =
    (case first_truthy (case f_json r of Inl e \<Rightarrow> JObj [] | Inr j \<Rightarrow> j) keys of
       Inl e \<Rightarrow> Inl e
     | Inr None \<Rightarrow> Inr fallback
     | Inr (Some v) \<Rightarrow> Inr (c_String env (Some v)))"

text \<open>The body shared by the functions that throw plain \<open>Error\<close>s: every value thrown
  inside the \<open>try\<close> is an \<open>Error\<close> and is thrown again as it is.\<close>

definition settle :: "'c client_env \<Rightarrow> string list \<Rightarrow> string \<Rightarrow> fetch_result \<Rightarrow> exn + json" where
  "settle env keys fallback fr =
    (case fr of
       NetworkFailure e \<Rightarrow> Inl e
     | Fetched r \<Rightarrow>
         if \<not> ok r then
           (case error_message env keys fallback r of
              Inl e \<Rightarrow> Inl e
            | Inr m \<Rightarrow> Inl (Error m))
         else f_json r)"

definition uploadDocument ::
  "'c client_env \<Rightarrow> js_file \<Rightarrow> 'c world \<Rightarrow> (exn + json) \<times> 'c world"
where
  "uploadDocument env file w =
    (case fetch (c_net env)
            \<lparr>req_method = POST, req_url = API_BASE_URL @ ''/upload'', req_headers = [],
             req_body = Some (FormData [(''file'', file)])\<rparr> w of
       (fr, w') \<Rightarrow> (settle env [''error''] ''Upload failed'' fr, w'))"

definition getDocumentById ::
  "'c client_env \<Rightarrow> string \<Rightarrow> 'c world \<Rightarrow> (exn + json) \<times> 'c world"
where
  "getDocumentById env documentId w =
    (case fetch (c_net env)
            \<lparr>req_method = GET, req_url = API_BASE_URL @ ''/documents/'' @ documentId,
             req_headers = [], req_body = None\<rparr> w of
       (fr, w') \<Rightarrow> (settle env [''error''] ''Failed to fetch document'' fr, w'))"

definition rejectDocument ::
  "'c client_env \<Rightarrow> string \<Rightarrow> string option \<Rightarrow> 'c world \<Rightarrow> (exn + json) \<times> 'c world"
where
  "rejectDocument env documentId reason w =
    (case fetch (c_net env)
            \<lparr>req_method = POST, req_url = API_BASE_URL @ ''/approval/reject/'' @ documentId,
             req_headers = [(''Content-Type'', ''application/json'')],
             req_body =
               (case reason of
                  None \<Rightarrow> None
                | Some r \<Rightarrow>
                    if r = [] then None else Some (JsonText (JObj [(''reason'', JStr r)])))\<rparr> w of
       (fr, w') \<Rightarrow> (settle env [''detail'', ''error''] ''Failed to reject document'' fr, w'))"

text \<open>\<open>getExtraction\<close> throws \<open>ApiError\<close>s: its own are thrown again, every other error is
  wrapped with status 500.\<close>

definition getExtraction ::
  "'c client_env \<Rightarrow> string \<Rightarrow> 'c world \<Rightarrow> (exn + json) \<times> 'c world"
where
  "getExtraction env documentId w =
    (case fetch (c_net env)
            \<lparr>req_method = GET, req_url = API_BASE_URL @ ''/approval/extractions/'' @ documentId,
             req_headers = [(''Content-Type'', ''application/json'')], req_body = None\<rparr> w of
       (fr, w') \<Rightarrow>
         ((case fr of
             NetworkFailure e \<Rightarrow> Inl (ApiError 500 ''Internal Error'' (message e))
           | Fetched r \<Rightarrow>
               if \<not> ok r then
                 (case error_message env [''detail'', ''error''] ''Failed to get extraction'' r of
                    Inl e \<Rightarrow> Inl (ApiError 500 ''Internal Error'' (message e))
                  | Inr m \<Rightarrow> Inl (ApiError (f_status r) (f_statusText r) m))
               else
                 (case f_json r of
                    Inl e \<Rightarrow> Inl (ApiError 500 ''Internal Error'' (message e))
                  | Inr data \<Rightarrow> Inr data)), w'))"

text \<open>
  \<open>waitForRedaction\<close>: the \<open>while (attempts < maxAttempts)\<close> loop, by the number of
  attempts made. \<open>onProgress\<close>, when given, is the list of effects the callback has for a
  status; its call is logged as one \<open>OnProgress\<close> entry that holds them. The results are
  the object literals of the source.
\<close>

definition maxAttempts :: nat where
  "maxAttempts = 60"

definition add_log :: "effect list \<Rightarrow> 'c world \<Rightarrow> 'c world" where
  "add_log es w = w\<lparr>log := log w @ es\<rparr>"

function waitForRedaction_loop ::
  "'c client_env \<Rightarrow> string \<Rightarrow> (json option \<Rightarrow> effect list) option \<Rightarrow> nat \<Rightarrow> 'c world
   \<Rightarrow> (exn + json) \<times> 'c world"
where
  "waitForRedaction_loop env documentId onProgress attempts w =
    (if attempts < maxAttempts then
       (case getDocumentById env documentId w of
          (Inl e, w1) \<Rightarrow> (Inl e, w1)
        | (Inr doc, w1) \<Rightarrow>
            (case get_prop doc ''status'' of
               Inl e \<Rightarrow> (Inl e, w1)
             | Inr st \<Rightarrow>
                 (case (case onProgress of
                          None \<Rightarrow> w1
                        | Some cb \<Rightarrow> add_log [OnProgress st (cb st)] w1) of
                    w2 \<Rightarrow>
                      if st = Some (JStr ''redacted'') then
                        (Inr (JObj [(''success'', JBool True), (''document'', doc)]), w2)
                      else if st = Some (JStr ''redaction_failed'') then
                        (Inr (JObj [(''success'', JBool False), (''document'', doc),
                                    (''error'', JStr ''Redaction failed'')]), w2)
                      else
                        waitForRedaction_loop env documentId onProgress (attempts + 1)
                          (add_log [Sleep 2000] w2))))
     else (Inl (Error ''Redaction timeout - took longer than 2 minutes''), w))"
  by pat_completeness auto
termination
  by (relation "measure (\<lambda>(env, documentId, onProgress, attempts, w). maxAttempts - attempts)")
     auto

declare waitForRedaction_loop.simps [simp del]

definition waitForRedaction ::
  "'c client_env \<Rightarrow> string \<Rightarrow> (json option \<Rightarrow> effect list) option \<Rightarrow> 'c world
   \<Rightarrow> (exn + json) \<times> 'c world"
where
  "waitForRedaction env documentId onProgress w =
    waitForRedaction_loop env documentId onProgress 0 w"

section \<open>components/UploadZone.tsx\<close>

definition ALLOWED_TYPES :: "string list" where
  "ALLOWED_TYPES = [''application/pdf'', ''image/jpeg'', ''image/jpg'', ''image/png'']"

definition MAX_FILE_SIZE :: nat where
  "MAX_FILE_SIZE = 10 * 1024 * 1024"

definition validateFile :: "js_file \<Rightarrow> string option" where
  "validateFile file =
    (if file_type file \<notin> set ALLOWED_TYPES then
       Some ''Invalid file type. Only PDF, JPG, and PNG files are allowed.''
     else if file_size file > MAX_FILE_SIZE then
       Some ''File too large. Maximum size is 10MB.''
     else None)"

text \<open>The progress callback \<open>handleFileUpload\<close> hands to \<open>waitForRedaction\<close>.\<close>

definition redaction_progress :: "json option \<Rightarrow> effect list" where
  "redaction_progress status =
    (if status = Some (JStr ''redacting'') then [Toast toast_loading ''Processing redaction...'']
     else [])"

text \<open>
  \<open>handleFileUpload\<close>; \<open>onUploadComplete\<close> says whether the optional callback was given.
  The \<open>finally\<close> block ends every path that entered the outer \<open>try\<close>.
\<close>

definition handleFileUpload :: "'c client_env \<Rightarrow> bool \<Rightarrow> js_file \<Rightarrow> 'c world \<Rightarrow> 'c world" where
  "handleFileUpload env onUploadComplete file w =
    (case validateFile file of
       Some error \<Rightarrow> add_log [Toast toast_error error] w
     | None \<Rightarrow>
         (case uploadDocument env file (add_log [SetIsUploading True] w) of
            (Inl err, w1) \<Rightarrow> add_log [Toast toast_error (message err), SetIsUploading False] w1
          | (Inr uploadResult, w1) \<Rightarrow>
              (case get_prop uploadResult ''document_id'' of
                 Inl err \<Rightarrow> add_log [Toast toast_error (message err), SetIsUploading False] w1
               | Inr documentId \<Rightarrow>
                   (case waitForRedaction env (c_String env documentId) (Some redaction_progress)
                           (add_log [Toast toast_success ''File uploaded successfully!'',
                                     Toast toast_loading ''Processing redaction...''] w1) of
                      (Inl redactionError, w2) \<Rightarrow>
                        add_log [Toast toast_error (message redactionError), SetIsUploading False] w2
                    | (Inr result, w2) \<Rightarrow>
                        (case get_prop result ''success'' of
                           Inl e \<Rightarrow> add_log [Toast toast_error (message e), SetIsUploading False] w2
                         | Inr success \<Rightarrow>
                             if truthy success then
                               add_log
                                 ([Toast toast_success ''Redaction complete! Redirecting to review...'']
                                  @ (if onUploadComplete then [OnUploadComplete] else [])
                                  @ [SetTimeout 1500
                                       (RouterPush (''/approval/'' @ c_String env documentId)),
                                     SetIsUploading False]) w2
                             else
                               (case get_prop result ''error'' of
                                  Inl e \<Rightarrow>
                                    add_log [Toast toast_error (message e), SetIsUploading False] w2
                                | Inr m \<Rightarrow>
                                    add_log
                                      [Toast toast_error
                                         (if truthy m then c_String env m else ''Redaction failed''),
                                       SetIsUploading False] w2))))))"

text \<open>
  \<open>handleDrop\<close> and \<open>handleFileSelect\<close>, the two handlers through which a chosen file
  reaches \<open>handleFileUpload\<close>. \<open>isUploading\<close> is the state the handler closed over and
  \<open>files\<close> the \<open>FileList\<close> of the event (\<open>None\<close> where the input holds \<open>null\<close>). Only
  \<open>files[0]\<close> is handed on. Neither handler awaits the upload it starts: the log lists the
  effects of that upload where it was started, so the reset of the input, which the browser
  does as soon as the upload first suspends, comes after them.
\<close>

definition handleDrop ::
  "'c client_env \<Rightarrow> bool \<Rightarrow> bool \<Rightarrow> js_file list \<Rightarrow> 'c world \<Rightarrow> 'c world" where
  "handleDrop env onUploadComplete isUploading files w =
    (let w0 = add_log [PreventDefault, SetIsDragging False] w in
     if isUploading then w0
     else if length files > 0 then handleFileUpload env onUploadComplete (files ! 0) w0
     else w0)"

definition handleFileSelect ::
  "'c client_env \<Rightarrow> bool \<Rightarrow> bool \<Rightarrow> js_file list option \<Rightarrow> 'c world \<Rightarrow> 'c world" where
  "handleFileSelect env onUploadComplete isUploading files w =
    (if isUploading then w
     else
       add_log [ResetInput]
         (case files of
            None \<Rightarrow> w
          | Some fs \<Rightarrow>
              if length fs > 0 then handleFileUpload env onUploadComplete (fs ! 0) w else w))"

text \<open>The upload requests of a log: the \<open>POST\<close>s to \<open>/api/upload\<close>.\<close>

definition upload_requests :: "effect list \<Rightarrow> request list" where
  "upload_requests es =
    filter (\<lambda>rq. req_method rq = POST \<and> req_url rq = ''/api/upload'') (requests es)"

section \<open>The approval page and the view page\<close>

record page_state =
  loading :: bool
  previewUrl :: "string option"
  document :: "json option"
  error :: "string option"










section \<open>The redaction pipeline of the backend\<close>

text \<open>
  The backend (\<open>backend/app/services/redaction_service.py\<close>, \<open>routers/upload.py\<close>) is
  not among the sources; the pipeline is modelled from sections 3 and 4 of the
  specification. The external OCR and PII services, and the mapper and renderer whose
  code is absent, are parameters.
\<close>

text \<open>Modelled from the spec: the status of a Document (section 3); the backend's model
  is missing.\<close>

datatype doc_status = uploaded | redacting | redacted | redaction_failed | approved | rejected

text \<open>Modelled from the spec: the Document record (section 3); the backend's model is
  missing.\<close>

record Document =
  doc_id :: string
  owner :: string
  filename :: string
  mime_type :: string
  byte_size :: nat
  doc_status :: doc_status
  staging_location :: string
  vault_location :: "string option"
  pii_count :: "nat option"

text \<open>Modelled from the spec: PageText, PiiFinding and RedactionBox (section 3); the
  backend's models are missing.\<close>

record rectangle =
  rect_x :: int
  rect_y :: int
  rect_w :: int
  rect_h :: int

record text_run =
  run_text :: string
  bounding_box :: rectangle
  page_number :: nat

record PiiFinding =
  category :: string
  start_offset :: nat
  end_offset :: nat
  likelihood :: nat

record RedactionBox =
  box_page :: nat
  box_rect :: rectangle

text \<open>Modelled from the spec: the error taxonomy of section 7 with the adapter failures of
  section 4; the backend's exceptions are missing.\<close>

datatype pipeline_error =
    ExtractionUnavailable
  | UnsupportedDocument
  | DetectionUnavailable
  | MappingFailure
  | RenderFailure
  | ResidualPiiDetected
  | ConflictingState

text \<open>Modelled from the spec: the contracts of the four stages (sections 4.1 to 4.4), each
  after its bounded retries; their implementations are missing.\<close>

record pipeline_stages =
  extract_text :: "nat list \<Rightarrow> pipeline_error + text_run list"
  detect_pii :: "string \<Rightarrow> pipeline_error + PiiFinding list"
  map_boxes :: "text_run list \<Rightarrow> PiiFinding list \<Rightarrow> pipeline_error + RedactionBox list"
  render_redacted :: "nat list \<Rightarrow> RedactionBox list \<Rightarrow> pipeline_error + nat list"

text \<open>Modelled from the spec: the scan of sections 4.1 and 4.2, the detector run on the
  runs' texts concatenated in reading order; the backend's scan is missing.\<close>

definition scan :: "pipeline_stages \<Rightarrow> nat list \<Rightarrow> pipeline_error + PiiFinding list" where
  "scan st bytes =
    (case extract_text st bytes of
       Inl e \<Rightarrow> Inl e
     | Inr runs \<Rightarrow> detect_pii st (concat (map run_text runs)))"

text \<open>Modelled from the spec: the validation loop (section 4.5), which re-runs the scan on
  the redacted output and takes any finding as fatal; the backend's validation is
  missing.\<close>

definition validate :: "pipeline_stages \<Rightarrow> nat list \<Rightarrow> pipeline_error + unit" where
  "validate st out =
    (case scan st out of
       Inl e \<Rightarrow> Inl e
     | Inr [] \<Rightarrow> Inr ()
     | Inr (f # fs) \<Rightarrow> Inl ResidualPiiDetected)"

text \<open>Modelled from the spec: the first four stages in their order (section 2, data flow),
  giving the renderer's output and the number of findings; the backend's pipeline is
  missing.\<close>

definition rendered :: "pipeline_stages \<Rightarrow> nat list \<Rightarrow> pipeline_error + nat list \<times> nat" where
  "rendered st original =
    (case extract_text st original of
       Inl e \<Rightarrow> Inl e
     | Inr runs \<Rightarrow>
         (case detect_pii st (concat (map run_text runs)) of
            Inl e \<Rightarrow> Inl e
          | Inr findings \<Rightarrow>
              (case map_boxes st runs findings of
                 Inl e \<Rightarrow> Inl e
               | Inr boxes \<Rightarrow>
                   (case render_redacted st original boxes of
                      Inl e \<Rightarrow> Inl e
                    | Inr out \<Rightarrow> Inr (out, length findings)))))"

text \<open>Modelled from the spec: the renderer's output is kept only when the validation loop
  passes it (section 4.5); the backend's pipeline is missing.\<close>

definition redact :: "pipeline_stages \<Rightarrow> nat list \<Rightarrow> pipeline_error + nat list \<times> nat" where
  "redact st original =
    (case rendered st original of
       Inl e \<Rightarrow> Inl e
     | Inr (out, n) \<Rightarrow>
         (case validate st out of
            Inl e \<Rightarrow> Inl e
          | Inr u \<Rightarrow> Inr (out, n)))"

text \<open>Modelled from the spec: the object store's staging area (section 6), from paths to
  bytes, and the transitions \<open>uploaded \<rightarrow> redacting \<rightarrow> redacted | redaction_failed\<close> of
  section 4.6 with their side effects; the backend's state machine is missing. A
  document that is not \<open>uploaded\<close> is refused with \<open>ConflictingState\<close> and left as it is.\<close>

definition run_pipeline ::
  "pipeline_stages \<Rightarrow> Document \<Rightarrow> (string \<rightharpoonup> nat list)
   \<Rightarrow> pipeline_error option \<times> Document \<times> (string \<rightharpoonup> nat list)"
where
  "run_pipeline st d staging =
    (if doc_status d \<noteq> uploaded then (Some ConflictingState, d, staging)
     else
       (case staging (staging_location d) of
          None \<Rightarrow> (Some UnsupportedDocument, d\<lparr>doc_status := redaction_failed\<rparr>, staging)
        | Some original \<Rightarrow>
            (case redact st original of
               Inl e \<Rightarrow>
                 (Some e, d\<lparr>doc_status := redaction_failed\<rparr>,
                  staging(staging_location d := None))
             | Inr (out, n) \<Rightarrow>
                 (None, d\<lparr>doc_status := redacted, pii_count := Some n\<rparr>,
                  staging(staging_location d \<mapsto> out)))))"

section \<open>Runs, logs and what a poll observes\<close>

text \<open>What a run appended to the log.\<close>

definition new_log :: "'s world \<Rightarrow> 's world \<Rightarrow> effect list" where
  "new_log w w' = drop (length (log w)) (log w')"

text \<open>The browser as a client of the Next.js server: its requests are routed to the
  handlers, which run against the network behind them.\<close>

definition browser :: "'s server_env \<Rightarrow> 's world client_env" where
  "browser env = \<lparr>c_net = next_server env, c_String_other = (\<lambda>v. ''undefined'')\<rparr>"

text \<open>Modelled from the spec: the backend's promise that a status query never mutates
  stored state (sections 5 and 8), as a property of the network behind the proxy; the
  backend's handlers are missing.\<close>

definition read_only :: "'s net \<Rightarrow> bool" where
  "read_only nt = (\<forall>rq s. req_method rq = GET \<longrightarrow> snd (nt rq s) = s)"

text \<open>A call repeated \<open>n\<close> times.\<close>

fun repeat_call :: "nat \<Rightarrow> ('w \<Rightarrow> 'r \<times> 'w) \<Rightarrow> 'w \<Rightarrow> 'w" where
  "repeat_call 0 f w = w"
| "repeat_call (Suc n) f w = repeat_call n f (snd (f w))"

text \<open>
  The request of one poll of \<open>waitForRedaction\<close>, and what the loop makes of the answer:
  the thrown value, or the document and its \<open>status\<close> property.
\<close>

definition poll_request :: "string \<Rightarrow> request" where
  "poll_request documentId =
    \<lparr>req_method = GET, req_url = API_BASE_URL @ ''/documents/'' @ documentId,
     req_headers = [], req_body = None\<rparr>"

definition poll_outcome :: "'c client_env \<Rightarrow> fetch_result \<Rightarrow> exn + json \<times> json option" where
  "poll_outcome env fr =
    (case settle env [''error''] ''Failed to fetch document'' fr of
       Inl e \<Rightarrow> Inl e
     | Inr doc \<Rightarrow> (case get_prop doc ''status'' of Inl e \<Rightarrow> Inl e | Inr st \<Rightarrow> Inr (doc, st)))"

definition observes :: "'c client_env \<Rightarrow> string \<Rightarrow> fetch_result \<Rightarrow> bool" where
  "observes env s fr =
    (case poll_outcome env fr of Inl e \<Rightarrow> False | Inr (doc, st) \<Rightarrow> st = Some (JStr s))"

definition poll_throws :: "'c client_env \<Rightarrow> fetch_result \<Rightarrow> bool" where
  "poll_throws env fr = (case poll_outcome env fr of Inl e \<Rightarrow> True | Inr x \<Rightarrow> False)"

fun polls :: "effect list \<Rightarrow> fetch_result list" where
  "polls [] = []"
| "polls (Fetch rq r # es) = r # polls es"
| "polls (e # es) = polls es"

text \<open>The results of \<open>waitForRedaction\<close> as its caller tells them apart
  (\<open>result.success\<close>).\<close>

definition is_success :: "exn + json \<Rightarrow> bool" where
  "is_success r =
    (case r of Inl e \<Rightarrow> False | Inr res \<Rightarrow> get_prop res ''success'' = Inr (Some (JBool True)))"

definition is_failure :: "exn + json \<Rightarrow> bool" where
  "is_failure r =
    (case r of Inl e \<Rightarrow> False | Inr res \<Rightarrow> get_prop res ''success'' = Inr (Some (JBool False)))"

definition timeout_error :: exn where
  "timeout_error = Error ''Redaction timeout - took longer than 2 minutes''"

definition progress_log :: "(json option \<Rightarrow> effect list) option \<Rightarrow> json option \<Rightarrow> effect list" where
  "progress_log onProgress st =
    (case onProgress of None \<Rightarrow> [] | Some cb \<Rightarrow> [OnProgress st (cb st)])"

text \<open>
  A poll stops the loop when it throws or observes one of the two final statuses. A list of
  polls is a full run of \<open>n\<close> attempts when every poll but the last does not stop the loop
  and the last one does, or all \<open>n\<close> attempts are used up.
\<close>

definition stops :: "'c client_env \<Rightarrow> fetch_result \<Rightarrow> bool" where
  "stops env fr =
    (poll_throws env fr \<or> observes env ''redacted'' fr \<or> observes env ''redaction_failed'' fr)"

fun polls_until_stop :: "'c client_env \<Rightarrow> nat \<Rightarrow> fetch_result list \<Rightarrow> bool" where
  "polls_until_stop env 0 ps = (ps = [])"
| "polls_until_stop env (Suc n) [] = False"
| "polls_until_stop env (Suc n) (fr # frs) =
     (if stops env fr then frs = [] else polls_until_stop env n frs)"

text \<open>
  What a run with these polls writes to the log: each poll, then the call of the progress
  callback with the status it saw, then, unless the status is final, the 2-second sleep
  before the next poll.
\<close>

fun poll_trace ::
  "'c client_env \<Rightarrow> string \<Rightarrow> (json option \<Rightarrow> effect list) option \<Rightarrow> fetch_result list
   \<Rightarrow> effect list"
where
  "poll_trace env i cb [] = []"
| "poll_trace env i cb (fr # frs) =
     Fetch (poll_request i) fr #
     (case poll_outcome env fr of
        Inl e \<Rightarrow> []
      | Inr (doc, st) \<Rightarrow>
          progress_log cb st @
          (if st = Some (JStr ''redacted'') \<or> st = Some (JStr ''redaction_failed'') then []
           else Sleep 2000 # poll_trace env i cb frs))"

text \<open>The result that belongs to a run with these polls.\<close>

fun verdict :: "'c client_env \<Rightarrow> fetch_result list \<Rightarrow> exn + json" where
  "verdict env [] = Inl timeout_error"
| "verdict env (fr # frs) =
     (case poll_outcome env fr of
        Inl e \<Rightarrow> Inl e
      | Inr (doc, st) \<Rightarrow>
          if st = Some (JStr ''redacted'') then
            Inr (JObj [(''success'', JBool True), (''document'', doc)])
          else if st = Some (JStr ''redaction_failed'') then
            Inr (JObj [(''success'', JBool False), (''document'', doc),
                       (''error'', JStr ''Redaction failed'')])
          else verdict env frs)"

text \<open>The answers of a network to the same request sent \<open>n\<close> times in a row, and the store
  it is left with.\<close>

fun net_run :: "'s net \<Rightarrow> request \<Rightarrow> nat \<Rightarrow> 's \<Rightarrow> fetch_result list \<times> 's" where
  "net_run nt rq 0 s = ([], s)"
| "net_run nt rq (Suc n) s =
     (case nt rq s of
        (fr, s') \<Rightarrow> (case net_run nt rq n s' of (frs, s'') \<Rightarrow> (fr # frs, s'')))"

text \<open>The account of a run of the loop that has \<open>n\<close> attempts left: \<open>r\<close> is its result and
  \<open>es\<close> what it appended to the log.\<close>

definition run_ok ::
  "'c client_env \<Rightarrow> string \<Rightarrow> (json option \<Rightarrow> effect list) option \<Rightarrow> nat \<Rightarrow> exn + json
   \<Rightarrow> effect list \<Rightarrow> bool"
where
  "run_ok env i cb n r es =
    (polls_until_stop env n (polls es)
     \<and> es = poll_trace env i cb (polls es)
     \<and> r = verdict env (polls es)
     \<and> requests es = replicate (length (polls es)) (poll_request i)
     \<and> length (polls es) \<le> n
     \<and> (is_success r \<longleftrightarrow> (\<exists>fr \<in> set (polls es). observes env ''redacted'' fr))
     \<and> (is_failure r \<longleftrightarrow> (\<exists>fr \<in> set (polls es). observes env ''redaction_failed'' fr))
     \<and> (\<forall>fr \<in> set (polls es). \<forall>e. poll_outcome env fr = Inl e \<longrightarrow> r = Inl e)
     \<and> (length (polls es) = n \<and> (\<forall>fr \<in> set (polls es). \<not> stops env fr)
         \<longrightarrow> r = Inl timeout_error))"

text \<open>The one upload request of \<open>uploadDocument\<close> for a file.\<close>

definition upload_request_of :: "js_file \<Rightarrow> request" where
  "upload_request_of file =
    \<lparr>req_method = POST, req_url = ''/api/upload'', req_headers = [],
     req_body = Some (FormData [(''file'', file)])\<rparr>"


text \<open>
  A body carries a human-readable message when it is an object with a non-empty string
  under \<open>detail\<close>, \<open>error\<close> or \<open>message\<close>, the keys the client reads; and an answer of the
  backend is relayable when its body parses as JSON and \<open>NextResponse.json\<close> takes its
  status.
\<close>

definition carries_message :: "json \<Rightarrow> bool" where
  "carries_message j =
    (case first_truthy j [''detail'', ''error'', ''message''] of
       Inr (Some (JStr m)) \<Rightarrow> True
     | _ \<Rightarrow> False)"

definition body_carries_message :: "response \<Rightarrow> bool" where
  "body_carries_message res =
    (case res_payload res of JsonPayload j \<Rightarrow> carries_message j | BinaryPayload b \<Rightarrow> False)"

definition relayable :: "fetch_result \<Rightarrow> bool" where
  "relayable fr =
    (case fr of
       NetworkFailure e \<Rightarrow> False
     | Fetched r \<Rightarrow>
         (case f_json r of Inl e \<Rightarrow> False | Inr data \<Rightarrow> can_carry_body (f_status r)))"

section \<open>Concrete environments\<close>

text \<open>
  Inputs for the concrete runs below: a signed-in session, a server environment over a
  given network, a backend that answers every request 409 with a \<open>detail\<close>, a gateway
  that answers 503 with a body that is not JSON, and a backend that keeps the status of one
  document as its store.
\<close>

definition alice :: session where
  "alice = \<lparr>session_user = Some \<lparr>user_email = Some ''alice@example.com'', user_name = Some ''Alice''\<rparr>\<rparr>"

definition test_env :: "session option \<Rightarrow> 's net \<Rightarrow> 's server_env" where
  "test_env sess nt =
    \<lparr>auth = sess, NEXTAUTH_SECRET = Some ''secret'', BACKEND_URL = ''http://backend'',
     jwt_sign = (\<lambda>e s. e @ ''.'' @ s),
     limiter = (\<lambda>p k s. (\<lparr>rl_success = True, rl_limit = 10, rl_remaining = 9, rl_reset = 0\<rparr>, s)),
     network = nt, zod_issues = (\<lambda>v. JArr []),
     toString = (\<lambda>n. ''n''), toISOString = (\<lambda>n. ''t''), String_other = (\<lambda>v. ''undefined'')\<rparr>"

definition conflict_net :: "unit net" where
  "conflict_net rq s =
    (Fetched \<lparr>f_status = 409, f_statusText = ''Conflict'',
              f_json = Inr (JObj [(''detail'', JStr ''Document is not in redacted status'')]),
              f_bytes = []\<rparr>, s)"

definition gateway_net :: "unit net" where
  "gateway_net rq s =
    (Fetched \<lparr>f_status = 503, f_statusText = ''Service Unavailable'',
              f_json = Inl SyntaxError, f_bytes = []\<rparr>, s)"

definition status_response :: "string \<Rightarrow> fetched" where
  "status_response st =
    \<lparr>f_status = 200, f_statusText = ''OK'',
     f_json = Inr (JObj [(''id'', JStr ''doc1''), (''status'', JStr st)]), f_bytes = []\<rparr>"

definition status_net :: "string net" where
  "status_net rq s =
    (case req_method rq of
       GET \<Rightarrow> (Fetched (status_response s), s)
     | POST \<Rightarrow>
         (Fetched \<lparr>f_status = 200, f_statusText = ''OK'',
                   f_json = Inr (JObj [(''document_id'', JStr ''doc1'')]), f_bytes = []\<rparr>,
          ''redacted'')
     | DELETE \<Rightarrow>
         (Fetched \<lparr>f_status = 200, f_statusText = ''OK'', f_json = Inr (JObj []), f_bytes = []\<rparr>,
          ''deleted''))"

definition empty_world :: "unit world" where
  "empty_world = \<lparr>store = (), log = []\<rparr>"

definition browser_world :: "unit world world" where
  "browser_world = \<lparr>store = empty_world, log = []\<rparr>"

definition world_of :: "'s \<Rightarrow> 's world" where
  "world_of s = \<lparr>store = s, log = []\<rparr>"

definition direct :: "'c net \<Rightarrow> 'c client_env" where
  "direct nt = \<lparr>c_net = nt, c_String_other = (\<lambda>v. ''undefined'')\<rparr>"

definition upload_request :: request where
  "upload_request =
    \<lparr>req_method = POST, req_url = ''/api/upload'', req_headers = [],
     req_body = Some (FormData [(''file'', \<lparr>file_name = ''w2.pdf'', file_type = ''application/pdf'', file_size = 1000\<rparr>)])\<rparr>"

definition approve_request_doc1 :: request where
  "approve_request_doc1 =
    \<lparr>req_method = POST, req_url = ''http://backend/approval/doc1/approve'',
     req_headers = [(''Authorization'', ''Bearer alice@example.com.secret''),
                    (''Content-Type'', ''application/json'')],
     req_body = None\<rparr>"

definition conflict_response :: fetched where
  "conflict_response =
    \<lparr>f_status = 409, f_statusText = ''Conflict'',
     f_json = Inr (JObj [(''detail'', JStr ''Document is not in redacted status'')]),
     f_bytes = []\<rparr>"

definition unavailable_response :: fetched where
  "unavailable_response =
    \<lparr>f_status = 503, f_statusText = ''Service Unavailable'', f_json = Inl SyntaxError,
     f_bytes = []\<rparr>"

definition odd_response :: fetched where
  "odd_response =
    \<lparr>f_status = 600, f_statusText = [],
     f_json = Inr (JObj [(''detail'', JStr ''Document is not in redacted status'')]),
     f_bytes = []\<rparr>"

definition bare_conflict_response :: fetched where
  "bare_conflict_response =
    \<lparr>f_status = 409, f_statusText = ''Conflict'', f_json = Inr (JObj []), f_bytes = []\<rparr>"

definition answer_net :: "fetched \<Rightarrow> unit net" where
  "answer_net r rq s = (Fetched r, s)"


definition pdf_file :: js_file where
  "pdf_file = \<lparr>file_name = ''w2.pdf'', file_type = ''application/pdf'', file_size = 10485760\<rparr>"

definition exe_file :: js_file where
  "exe_file = \<lparr>file_name = ''setup.exe'', file_type = ''application/x-msdownload'', file_size = 1000\<rparr>"

text \<open>Stages for a run of the pipeline: every byte is read as a digit, any text is found
  to be PII, and the renderer either blanks the document or, when leaky, returns it
  as it is.\<close>

definition toy_stages :: "bool \<Rightarrow> pipeline_stages" where
  "toy_stages leaky =
    \<lparr>extract_text = (\<lambda>bytes.
       Inr [\<lparr>run_text = replicate (length bytes) CHR ''9'',
             bounding_box = \<lparr>rect_x = 0, rect_y = 0, rect_w = 10, rect_h = 10\<rparr>,
             page_number = 1\<rparr>]),
     detect_pii = (\<lambda>text.
       Inr (if text = [] then []
            else [\<lparr>category = ''SSN'', start_offset = 0, end_offset = length text,
                    likelihood = 5\<rparr>])),
     map_boxes = (\<lambda>runs findings.
       Inr (map (\<lambda>f. \<lparr>box_page = 1,
                        box_rect = \<lparr>rect_x = 0, rect_y = 0, rect_w = 10, rect_h = 10\<rparr>\<rparr>)
              findings)),
     render_redacted = (\<lambda>bytes boxes. Inr (if leaky then bytes else []))\<rparr>"

definition tax_form :: Document where
  "tax_form =
    \<lparr>doc_id = ''doc1'', owner = ''alice@example.com'', filename = ''w2.pdf'',
     mime_type = ''application/pdf'', byte_size = 3, doc_status = uploaded,
     staging_location = ''staging/doc1'', vault_location = None, pii_count = None\<rparr>"

definition staged :: "string \<rightharpoonup> nat list" where
  "staged = [''staging/doc1'' \<mapsto> [1, 2, 3]]"

section \<open>Properties\<close>

subsection \<open>Components\<close>

lemma statusConfig_keys: "map fst statusConfig = DocumentStatus"
  by (simp add: statusConfig_def DocumentStatus_def)

text \<open>
  C2. As stated the claim fails: \<open>redaction_failed\<close> is one of the six statuses of the
  specification, is not a member of \<open>DocumentStatus\<close> and has no \<open>statusConfig\<close> entry.
  Amended: for every status of the specification other than \<open>redaction_failed\<close>, that is
  for every member of \<open>DocumentStatus\<close>, \<open>statusConfig\<close> has an entry, and \<open>StatusBadge\<close>
  renders a badge with that entry's class and label.
\<close>

theorem StatusBadge_renders:
  assumes "status \<in> set spec_statuses" and "status \<noteq> ''redaction_failed''"
  shows "status \<in> set DocumentStatus
       \<and> (\<exists>config. map_of statusConfig status = Some config
             \<and> StatusBadge status cls =
                 Inr \<lparr>badge_classes =
                        ''inline-flex items-center px-3 py-1 rounded-lg text-sm font-medium''
                        # className config # (case cls of None \<Rightarrow> [] | Some c \<Rightarrow> [c]),
                      badge_text = label config\<rparr>)"
proof -
  from assms have "status \<in> set DocumentStatus"
    by (simp add: spec_statuses_def DocumentStatus_def)
  moreover from this obtain config where "map_of statusConfig status = Some config"
    by (auto simp: DocumentStatus_def statusConfig_def)
  ultimately show ?thesis by (simp add: StatusBadge_def)
qed

theorem StatusBadge_renders_witness:
  "''approved'' \<in> set spec_statuses \<and> ''approved'' \<noteq> ''redaction_failed''
   \<and> StatusBadge ''approved'' None =
       Inr \<lparr>badge_classes =
              [''inline-flex items-center px-3 py-1 rounded-lg text-sm font-medium'',
               ''bg-purple-50 text-purple-700''],
            badge_text = ''Approved''\<rparr>"
proof -
  have a: "''approved'' \<in> set spec_statuses" by (simp add: spec_statuses_def)
  have b: "''approved'' \<noteq> ''redaction_failed''" by simp
  have c: "map_of statusConfig ''approved''
           = Some \<lparr>label = ''Approved'', className = ''bg-purple-50 text-purple-700''\<rparr>"
    by (simp add: statusConfig_def)
  from StatusBadge_renders [OF a b, of None] a b c show ?thesis by auto
qed

text \<open>The claim of C2 as stated, refuted at \<open>redaction_failed\<close>: the lookup is \<open>undefined\<close>,
  and a render with that status would throw on \<open>config.className\<close>.\<close>

theorem StatusBadge_redaction_failed_counterexample:
  "''redaction_failed'' \<in> set spec_statuses
   \<and> ''redaction_failed'' \<notin> set DocumentStatus
   \<and> map_of statusConfig ''redaction_failed'' = None
   \<and> StatusBadge ''redaction_failed'' None = Inl TypeError"
  by (simp add: spec_statuses_def DocumentStatus_def statusConfig_def StatusBadge_def)

text \<open>
  C6. With status \<open>completed\<close> the card shows the five named fields, in order, each with
  \<open>N/A\<close> when its value is null; and whatever the fields hold, the failed rendering
  appears exactly when the status is \<open>failed\<close>.
\<close>

theorem ExtractionCard_completed:
  "shown_fields (ExtractionCard ops f (Some completed) err) =
     Some [(''Filing Status'',
              (case filing_status f of None \<Rightarrow> ''N/A'' | Some s \<Rightarrow> if s = [] then ''N/A'' else s)),
           (''W-2 Wages'',
              (case w2_wages f of None \<Rightarrow> ''N/A'' | Some x \<Rightarrow> currency_format ops x)),
           (''Total Deductions'',
              (case total_deductions f of None \<Rightarrow> ''N/A'' | Some x \<Rightarrow> currency_format ops x)),
           (''IRA Distributions'',
              (case ira_distributions_total f of
                 None \<Rightarrow> ''N/A'' | Some x \<Rightarrow> currency_format ops x)),
           (''Capital Gain/Loss'',
              (case capital_gain_or_loss f of
                 None \<Rightarrow> ''N/A'' | Some x \<Rightarrow> currency_format ops x))]
   \<and> is_failed_card (ExtractionCard ops f st err) = (st = Some failed)"
  by (simp add: ExtractionCard_def shown_fields_def is_failed_card_def formatCurrency_def)

subsection \<open>Route handlers\<close>

text \<open>
  C8. When \<open>session?.user?.email\<close> is missing or empty, each handler answers 401 and
  returns the world as it was: no request was sent, the limiter was not called, the store
  is unchanged.
\<close>

theorem unauthenticated_request_401:
  assumes "session_email (auth env) = None"
  shows "res_status (fst (POST_upload env rq w)) = 401 \<and> snd (POST_upload env rq w) = w
       \<and> res_status (fst (GET_documents env w)) = 401 \<and> snd (GET_documents env w) = w
       \<and> res_status (fst (GET_documents_id env ident w)) = 401
       \<and> snd (GET_documents_id env ident w) = w
       \<and> res_status (fst (DELETE_documents_id env ident w)) = 401
       \<and> snd (DELETE_documents_id env ident w) = w
       \<and> res_status (fst (POST_documents_sync env w)) = 401
       \<and> snd (POST_documents_sync env w) = w
       \<and> res_status (fst (POST_approve env ident w)) = 401 \<and> snd (POST_approve env ident w) = w
       \<and> res_status (fst (POST_reject env ident w)) = 401 \<and> snd (POST_reject env ident w) = w
       \<and> res_status (fst (POST_reject_reason env rq ident w)) = 401
       \<and> snd (POST_reject_reason env rq ident w) = w
       \<and> res_status (fst (POST_approval env rq di ac w)) = 401
       \<and> snd (POST_approval env rq di ac w) = w
       \<and> res_status (fst (GET_pdf env ident w)) = 401 \<and> snd (GET_pdf env ident w) = w
       \<and> res_status (fst (GET_download env ident w)) = 401 \<and> snd (GET_download env ident w) = w"
  using assms
  by (simp add: POST_upload_def GET_documents_def GET_documents_id_def DELETE_documents_id_def
      POST_documents_sync_def POST_approve_def POST_reject_def POST_reject_reason_def
      POST_approval_def GET_pdf_def GET_download_def unauthorized_def json_response_def)

theorem unauthenticated_request_401_witness:
  "session_email (auth (test_env None conflict_net)) = None
   \<and> res_status (fst (POST_upload (test_env None conflict_net) upload_request empty_world)) = 401
   \<and> snd (POST_upload (test_env None conflict_net) upload_request empty_world) = empty_world
   \<and> res_status (fst (DELETE_documents_id (test_env None conflict_net) ''doc1'' empty_world)) = 401
   \<and> snd (DELETE_documents_id (test_env None conflict_net) ''doc1'' empty_world) = empty_world"
  using unauthenticated_request_401 [of "test_env None conflict_net" upload_request empty_world "''doc1''"]
  by (simp add: test_env_def session_email_def)

text \<open>
  C3. As stated the claim fails three ways: a backend body that is not JSON makes
  \<open>response.json()\<close> throw, a backend status that \<open>NextResponse.json\<close> refuses makes it
  throw, and in both cases the \<open>catch\<close> answers 500 whatever the backend's status was; and a
  body relayed from the backend carries a message only if the backend put one there.
  Amended: every request the approve proxy forwards is a \<open>POST\<close> to
  \<open>/approval/{id}/approve\<close>. When the backend answers it with a body that parses as JSON
  and a status in 200..599 other than 204, 205 and 304, the proxy answers with the backend's
  status (409 included) and the backend's JSON body unchanged. In every other case it
  answers 500 with its own JSON error body. The body of the answer carries a human-readable
  message exactly when it is the proxy's own error body or the backend's body carried one.
\<close>

theorem POST_approve_relays_backend:
  assumes "POST_approve env ident w = (res, w')"
      and "Fetch rq fr \<in> set (new_log w w')"
  shows "req_method rq = POST
       \<and> req_url rq = BACKEND_URL env @ ''/approval/'' @ ident @ ''/approve''
       \<and> (\<forall>r data. fr = Fetched r \<and> f_json r = Inr data \<and> can_carry_body (f_status r)
             \<longrightarrow> res_status res = f_status r \<and> res_payload res = JsonPayload data)
       \<and> (\<not> relayable fr
             \<longrightarrow> res_status res = 500
                 \<and> (\<exists>e. res_payload res =
                        JsonPayload (JObj [(''error'', JStr ''Internal server error''),
                                           (''details'', JStr (message e))])))
       \<and> (body_carries_message res
             \<longleftrightarrow> \<not> relayable fr
                 \<or> (\<exists>r data. fr = Fetched r \<and> f_json r = Inr data \<and> carries_message data))"
proof -
  obtain email where e: "session_email (auth env) = Some email"
    using assms by (auto simp: POST_approve_def new_log_def split: option.splits)
  obtain rl s1 where l: "limiter env ''filevault'' email (store w) = (rl, s1)"
    by (cases "limiter env ''filevault'' email (store w)") auto
  have ok: "rl_success rl"
    using assms e l by (auto simp: POST_approve_def new_log_def ratelimit_def split: if_splits)
  obtain tok where t: "createBackendToken env email = Inr tok"
    using assms e l ok
    by (cases "createBackendToken env email")
       (auto simp: POST_approve_def new_log_def ratelimit_def)
  let ?rq = "\<lparr>req_method = POST, req_url = BACKEND_URL env @ ''/approval/'' @ ident @ ''/approve'',
             req_headers = bearer tok, req_body = None\<rparr>"
  obtain fr0 s2 where n: "network env ?rq s1 = (fr0, s2)"
    by (cases "network env ?rq s1") auto
  have res: "res = caught_details (pass_backend fr0)"
    and w': "new_log w w' = [Limit ''filevault'' email, Fetch ?rq fr0]"
    using assms(1) e l ok t n
    by (auto simp: POST_approve_def new_log_def ratelimit_def fetch_def)
  from assms(2) w' have rq: "rq = ?rq" and fr: "fr = fr0" by auto
  have a: "res_status res = f_status r \<and> res_payload res = JsonPayload data"
    if "fr = Fetched r" "f_json r = Inr data" "can_carry_body (f_status r)" for r data
    using that res fr
    by (auto simp: pass_backend_def caught_details_def NextResponse_json_def can_carry_body_def
        json_response_def)
  have b: "res_status res = 500
           \<and> (\<exists>e. res_payload res =
                  JsonPayload (JObj [(''error'', JStr ''Internal server error''),
                                     (''details'', JStr (message e))]))"
    if "\<not> relayable fr"
  proof -
    have "\<exists>e. res = internal_error_details e"
      using that res fr
      by (auto simp: relayable_def pass_backend_def caught_details_def NextResponse_json_def
          can_carry_body_def split: fetch_result.splits sum.splits)
    then show ?thesis
      by (auto simp: internal_error_details_def json_response_def)
  qed
  have c: "body_carries_message res" if "\<not> relayable fr"
    using b [OF that] by (auto simp: body_carries_message_def carries_message_def)
  have d: "body_carries_message res \<longleftrightarrow> carries_message data"
    if "relayable fr" "fr = Fetched r" "f_json r = Inr data" for r data
    using that a [of r data] by (auto simp: relayable_def body_carries_message_def)
  have f: "\<exists>r data. fr = Fetched r \<and> f_json r = Inr data" if "relayable fr"
    using that by (auto simp: relayable_def split: fetch_result.splits sum.splits)
  have g: "body_carries_message res
             \<longleftrightarrow> \<not> relayable fr
                 \<or> (\<exists>r data. fr = Fetched r \<and> f_json r = Inr data \<and> carries_message data)"
  proof (cases "relayable fr")
    case True
    then obtain r data where rd: "fr = Fetched r" "f_json r = Inr data" using f by blast
    from d [OF True rd] rd True show ?thesis by auto
  next
    case False
    then show ?thesis using c by simp
  qed
  from rq a b g show ?thesis by auto
qed

theorem POST_approve_relays_backend_witness:
  "POST_approve (test_env (Some alice) conflict_net) ''doc1'' empty_world =
     (json_response (JObj [(''detail'', JStr ''Document is not in redacted status'')]) 409,
      \<lparr>store = (), log = [Limit ''filevault'' ''alice@example.com'',
                           Fetch approve_request_doc1 (Fetched conflict_response)]\<rparr>)
   \<and> can_carry_body (f_status conflict_response)
   \<and> res_status
        (json_response (JObj [(''detail'', JStr ''Document is not in redacted status'')]) 409)
       = f_status conflict_response
   \<and> f_status conflict_response = 409
   \<and> body_carries_message
        (json_response (JObj [(''detail'', JStr ''Document is not in redacted status'')]) 409)"
proof -
  let ?w' = "\<lparr>store = (), log = [Limit ''filevault'' ''alice@example.com'',
                                  Fetch approve_request_doc1 (Fetched conflict_response)]\<rparr>"
  let ?res = "json_response (JObj [(''detail'', JStr ''Document is not in redacted status'')]) 409"
  have run: "POST_approve (test_env (Some alice) conflict_net) ''doc1'' empty_world = (?res, ?w')"
    by (simp add: POST_approve_def test_env_def alice_def session_email_def ratelimit_def
        empty_world_def createBackendToken_def fetch_def conflict_net_def bearer_def
        pass_backend_def caught_details_def approve_request_doc1_def conflict_response_def
        NextResponse_json_def)
  have mem: "Fetch approve_request_doc1 (Fetched conflict_response) \<in> set (new_log empty_world ?w')"
    by (simp add: new_log_def empty_world_def)
  have cc: "can_carry_body (f_status conflict_response)"
    by (simp add: can_carry_body_def conflict_response_def)
  have cm: "carries_message (JObj [(''detail'', JStr ''Document is not in redacted status'')])"
    by (simp add: carries_message_def)
  have js: "f_json conflict_response
            = Inr (JObj [(''detail'', JStr ''Document is not in redacted status'')])"
    by (simp add: conflict_response_def)
  from POST_approve_relays_backend [OF run mem] js cc cm run show ?thesis
    by (auto simp: conflict_response_def)
qed

text \<open>The claim of C3 as stated, refuted: the backend answers 503 with a body that is not
  JSON and the proxy answers 500; it answers 600 with a JSON body and the proxy answers
  500; it answers 409 with the body \<open>{}\<close> and the proxy relays a body with no message.\<close>

theorem POST_approve_not_json_counterexample:
  "new_log empty_world (snd (POST_approve (test_env (Some alice) gateway_net) ''doc1'' empty_world))
     = [Limit ''filevault'' ''alice@example.com'',
        Fetch approve_request_doc1 (Fetched unavailable_response)]
   \<and> f_status unavailable_response = 503
   \<and> res_status (fst (POST_approve (test_env (Some alice) gateway_net) ''doc1'' empty_world)) = 500
   \<and> res_status (fst (POST_approve (test_env (Some alice) gateway_net) ''doc1'' empty_world))
       \<noteq> f_status unavailable_response
   \<and> new_log empty_world
        (snd (POST_approve (test_env (Some alice) (answer_net odd_response)) ''doc1'' empty_world))
     = [Limit ''filevault'' ''alice@example.com'', Fetch approve_request_doc1 (Fetched odd_response)]
   \<and> f_status odd_response = 600
   \<and> f_json odd_response = Inr (JObj [(''detail'', JStr ''Document is not in redacted status'')])
   \<and> res_status
        (fst (POST_approve (test_env (Some alice) (answer_net odd_response)) ''doc1'' empty_world))
       = 500
   \<and> fst (POST_approve (test_env (Some alice) (answer_net bare_conflict_response)) ''doc1''
            empty_world)
       = json_response (JObj []) 409
   \<and> f_status bare_conflict_response = 409
   \<and> \<not> body_carries_message (json_response (JObj []) 409)"
  by (simp add: POST_approve_def test_env_def alice_def session_email_def ratelimit_def
      empty_world_def createBackendToken_def fetch_def gateway_net_def answer_net_def bearer_def
      pass_backend_def caught_details_def approve_request_doc1_def unavailable_response_def
      odd_response_def bare_conflict_response_def new_log_def internal_error_details_def
      json_response_def NextResponse_json_def body_carries_message_def carries_message_def)

text \<open>The reject proxy that validates the reason forwards to \<open>/approval/{id}/reject\<close>.\<close>

lemma POST_reject_reason_forwards:
  assumes "POST_reject_reason env rq ident w = (res, w')"
      and "Fetch fq fr \<in> set (new_log w w')"
  shows "req_method fq = POST \<and> req_url fq = BACKEND_URL env @ ''/approval/'' @ ident @ ''/reject''"
  using assms
  by (auto simp: POST_reject_reason_def new_log_def ratelimit_def fetch_def
      split: option.splits prod.splits sum.splits if_splits)

text \<open>
  C5. \<open>rejectDocument\<close> posts to \<open>/api/approval/reject/{id}\<close>, which is served by
  \<open>app/api/approval/reject/[id]/route.ts\<close>; that handler forwards the request to
  \<open>/approval/reject/{id}\<close> of the backend, not to \<open>/approval/{id}/reject\<close> as the claim
  says and as the other reject proxy and the approve proxy do.
\<close>

theorem rejectDocument_wrong_endpoint:
  "requests (log (store (snd (rejectDocument (browser (test_env (Some alice) conflict_net))
                                ''doc1'' None browser_world))))
     = [\<lparr>req_method = POST, req_url = ''http://backend/approval/reject/doc1'',
         req_headers = [(''Authorization'', ''Bearer alice@example.com.secret''),
                        (''Content-Type'', ''application/json'')],
         req_body = None\<rparr>]
   \<and> ''http://backend/approval/reject/doc1''
       \<noteq> BACKEND_URL (test_env (Some alice) conflict_net) @ ''/approval/'' @ ''doc1'' @ ''/reject''"
  by (simp add: rejectDocument_def browser_def browser_world_def empty_world_def fetch_def
      next_server_def route_def segment_after_def API_BASE_URL_def POST_reject_def
      test_env_def alice_def session_email_def createBackendToken_def conflict_net_def
      bearer_def)

subsection \<open>Status queries\<close>

lemma fetch_read_only:
  "read_only nt \<Longrightarrow> req_method rq = GET \<Longrightarrow> store (snd (fetch nt rq w)) = store w"
  by (simp add: read_only_def fetch_def split: prod.splits) (metis snd_conv)

lemma fetch_log: "log (snd (fetch nt rq w)) = log w @ [Fetch rq (fst (fetch nt rq w))]"
  by (simp add: fetch_def split: prod.splits)

lemma fetch_appends:
  "fetch nt rq w = (fr, w1) \<Longrightarrow> log w1 = log w @ [Fetch rq fr]"
  by (auto simp: fetch_def split: prod.splits)


lemma GET_documents_id_read_only:
  assumes "read_only (network env)"
  shows "store (snd (GET_documents_id env ident w)) = store w"
  using fetch_read_only [OF assms, of _ w]
  by (auto simp: GET_documents_id_def split: option.splits sum.splits prod.splits)
     (metis request.select_convs(1) snd_conv)

lemma GET_pdf_read_only:
  assumes "read_only (network env)"
  shows "store (snd (GET_pdf env ident w)) = store w"
proof -
  have a: "\<And>rq v. req_method rq = GET \<Longrightarrow> store (snd (fetch (network env) rq v)) = store v"
    using fetch_read_only [OF assms] by blast
  show ?thesis
    unfolding GET_pdf_def
    apply (simp split: option.splits sum.splits prod.splits fetch_result.splits)
    apply (intro allI impI conjI)
    apply (metis a request.select_convs(1) snd_conv)+
    done
qed

lemma route_read_only:
  assumes "read_only (network env)" and "req_method rq = GET"
  shows "store (snd (route env rq w)) = store w"
  using assms GET_documents_id_read_only [OF assms(1)] GET_pdf_read_only [OF assms(1)]
  by (simp add: route_def not_found_def split: option.splits)

lemma getDocumentById_store:
  assumes "read_only (network env)"
  shows "store (store (snd (getDocumentById (browser env) ident w))) = store (store w)"
  using route_read_only [OF assms, of "\<lparr>req_method = GET, req_url = API_BASE_URL @ ''/documents/'' @ ident, req_headers = [], req_body = None\<rparr>" "store w"]
  by (auto simp: getDocumentById_def browser_def fetch_def next_server_def split: prod.splits)

lemma getExtraction_store:
  assumes "read_only (c_net cenv)"
  shows "store (snd (getExtraction cenv ident v)) = store v"
  using fetch_read_only [OF assms, of "\<lparr>req_method = GET, req_url = API_BASE_URL @ ''/approval/extractions/'' @ ident, req_headers = [(''Content-Type'', ''application/json'')], req_body = None\<rparr>" v]
  by (auto simp: getExtraction_def split: prod.splits)

lemma repeat_call_invariant:
  assumes "\<And>w. P (snd (f w)) = P w"
  shows "P (repeat_call n f w) = P w"
  using assms by (induction n arbitrary: w) simp_all

text \<open>
  C4. \<open>getDocumentById\<close> and \<open>getExtraction\<close> each send one request, a \<open>GET\<close>; the
  document route forwards at most one request, a \<open>GET\<close> to \<open>/documents/{id}\<close>; and on
  a backend whose \<open>GET\<close>s leave its store as it is, any number of status queries, sent
  through the proxy, leave the store as it is.
\<close>

theorem status_queries_read_only:
  assumes "read_only (network env)" and "read_only (c_net cenv)"
  shows "store (store (repeat_call n (getDocumentById (browser env) ident) w)) = store (store w)
       \<and> store (repeat_call n (getExtraction cenv ident) v) = store v
       \<and> map req_method (requests (new_log w (snd (getDocumentById (browser env) ident w)))) = [GET]
       \<and> map req_method (requests (new_log v (snd (getExtraction cenv ident v)))) = [GET]
       \<and> (\<forall>rq \<in> set (requests (new_log sw (snd (GET_documents_id env ident sw)))).
             req_method rq = GET \<and> req_url rq = BACKEND_URL env @ ''/documents/'' @ ident)"
proof -
  have 1: "store (store (repeat_call n (getDocumentById (browser env) ident) w)) = store (store w)"
    using repeat_call_invariant [of "\<lambda>w. store (store w)" "getDocumentById (browser env) ident"]
      getDocumentById_store [OF assms(1)] by simp
  have 2: "store (repeat_call n (getExtraction cenv ident) v) = store v"
    using repeat_call_invariant [of store "getExtraction cenv ident"]
      getExtraction_store [OF assms(2)] by simp
  have 3: "map req_method (requests (new_log w (snd (getDocumentById (browser env) ident w)))) = [GET]"
    by (simp add: getDocumentById_def fetch_def new_log_def split: prod.splits)
  have 4: "map req_method (requests (new_log v (snd (getExtraction cenv ident v)))) = [GET]"
    by (simp add: getExtraction_def fetch_def new_log_def split: prod.splits)
  have 5: "\<forall>rq \<in> set (requests (new_log sw (snd (GET_documents_id env ident sw)))).
             req_method rq = GET \<and> req_url rq = BACKEND_URL env @ ''/documents/'' @ ident"
    by (simp add: GET_documents_id_def fetch_def new_log_def
        split: option.splits sum.splits prod.splits)
  from 1 2 3 4 5 show ?thesis by blast
qed

theorem status_queries_read_only_witness:
  "read_only (network (test_env (Some alice) status_net))
   \<and> read_only (c_net (direct status_net))
   \<and> store (store (repeat_call 3 (getDocumentById (browser (test_env (Some alice) status_net))
                                    ''doc1'') (world_of (world_of ''redacted'')))) = ''redacted''
   \<and> store (repeat_call 3 (getExtraction (direct status_net) ''doc1'') (world_of ''approved''))
       = ''approved''"
proof -
  have h1: "read_only (network (test_env (Some alice) status_net))"
    by (simp add: read_only_def test_env_def status_net_def)
  have h2: "read_only (c_net (direct status_net))"
    by (simp add: read_only_def direct_def status_net_def)
  from status_queries_read_only [OF h1 h2, of 3 "''doc1''" "world_of (world_of ''redacted'')"
      "world_of ''approved''"] h1 h2
  show ?thesis by (simp add: world_of_def)
qed

subsection \<open>Waiting for the redaction\<close>

lemma polls_append: "polls (xs @ ys) = polls xs @ polls ys"
  by (induction xs rule: polls.induct) simp_all

lemma requests_append: "requests (xs @ ys) = requests xs @ requests ys"
  by (induction xs rule: requests.induct) simp_all

lemma polls_requests: "requests es = [] \<Longrightarrow> polls es = []"
  by (induction es rule: requests.induct) simp_all

lemma progress_log_requests:
  "requests (progress_log cb st) = [] \<and> polls (progress_log cb st) = []"
  by (simp add: progress_log_def split: option.splits)

lemma loop_done:
  "\<not> a < maxAttempts \<Longrightarrow> waitForRedaction_loop env i cb a w = (Inl timeout_error, w)"
  by (simp add: waitForRedaction_loop.simps timeout_error_def)

lemma loop_step:
  assumes "a < maxAttempts" and "fetch (c_net env) (poll_request i) w = (fr, w1)"
  shows "waitForRedaction_loop env i cb a w =
    (case poll_outcome env fr of
       Inl e \<Rightarrow> (Inl e, w1)
     | Inr (doc, st) \<Rightarrow>
         if st = Some (JStr ''redacted'') then
           (Inr (JObj [(''success'', JBool True), (''document'', doc)]),
            add_log (progress_log cb st) w1)
         else if st = Some (JStr ''redaction_failed'') then
           (Inr (JObj [(''success'', JBool False), (''document'', doc),
                       (''error'', JStr ''Redaction failed'')]),
            add_log (progress_log cb st) w1)
         else waitForRedaction_loop env i cb (a + 1)
                (add_log [Sleep 2000] (add_log (progress_log cb st) w1)))"
  using assms
  by (subst waitForRedaction_loop.simps)
     (auto simp: getDocumentById_def poll_request_def poll_outcome_def progress_log_def add_log_def
       split: sum.splits option.splits)

lemma run_ok_done: "run_ok env i cb 0 (Inl timeout_error) []"
  by (simp add: run_ok_def is_success_def is_failure_def)

lemma run_ok_throw:
  "poll_outcome env fr = Inl e
   \<Longrightarrow> run_ok env i cb (Suc n) (Inl e) [Fetch (poll_request i) fr]"
  by (simp add: run_ok_def is_success_def is_failure_def observes_def poll_throws_def stops_def)

lemma run_ok_success:
  assumes "poll_outcome env fr = Inr (doc, Some (JStr ''redacted''))"
  shows "run_ok env i cb (Suc n) (Inr (JObj [(''success'', JBool True), (''document'', doc)]))
           (Fetch (poll_request i) fr # progress_log cb (Some (JStr ''redacted'')))"
  using assms progress_log_requests [of cb "Some (JStr ''redacted'')"]
  by (simp add: run_ok_def is_success_def is_failure_def observes_def poll_throws_def stops_def)

lemma run_ok_failure:
  assumes "poll_outcome env fr = Inr (doc, Some (JStr ''redaction_failed''))"
  shows "run_ok env i cb (Suc n)
           (Inr (JObj [(''success'', JBool False), (''document'', doc),
                       (''error'', JStr ''Redaction failed'')]))
           (Fetch (poll_request i) fr # progress_log cb (Some (JStr ''redaction_failed'')))"
  using assms progress_log_requests [of cb "Some (JStr ''redaction_failed'')"]
  by (simp add: run_ok_def is_success_def is_failure_def observes_def poll_throws_def stops_def)

lemma run_ok_continue:
  assumes "poll_outcome env fr = Inr (doc, st)"
      and "st \<noteq> Some (JStr ''redacted'')" and "st \<noteq> Some (JStr ''redaction_failed'')"
      and "run_ok env i cb n r es"
  shows "run_ok env i cb (Suc n) r
           (Fetch (poll_request i) fr # progress_log cb st @ Sleep 2000 # es)"
proof -
  let ?es = "Fetch (poll_request i) fr # progress_log cb st @ Sleep 2000 # es"
  have p: "polls (progress_log cb st @ Sleep 2000 # es) = polls es"
    and q: "requests (progress_log cb st @ Sleep 2000 # es) = requests es"
    using progress_log_requests [of cb st] by (simp_all add: polls_append requests_append)
  have ns: "\<not> stops env fr" "\<not> observes env ''redacted'' fr"
    "\<not> observes env ''redaction_failed'' fr" "\<not> poll_throws env fr"
    using assms(1-3) by (simp_all add: stops_def observes_def poll_throws_def)
  from assms(4) have
    a: "polls_until_stop env n (polls es)" and b: "es = poll_trace env i cb (polls es)"
    and c: "r = verdict env (polls es)"
    and d: "requests es = replicate (length (polls es)) (poll_request i)"
    and e: "length (polls es) \<le> n"
    and f: "is_success r \<longleftrightarrow> (\<exists>fr \<in> set (polls es). observes env ''redacted'' fr)"
    and g: "is_failure r \<longleftrightarrow> (\<exists>fr \<in> set (polls es). observes env ''redaction_failed'' fr)"
    and h: "\<forall>fr \<in> set (polls es). \<forall>e. poll_outcome env fr = Inl e \<longrightarrow> r = Inl e"
    and k: "length (polls es) = n \<and> (\<forall>fr \<in> set (polls es). \<not> stops env fr)
            \<longrightarrow> r = Inl timeout_error"
    unfolding run_ok_def by blast+
  have 1: "polls_until_stop env (Suc n) (polls ?es)" using a ns(1) by (simp add: p)
  have 2: "?es = poll_trace env i cb (polls ?es)"
    using b assms(1-3) by (simp add: p)
  have 3: "r = verdict env (polls ?es)" using c assms(1-3) by (simp add: p)
  have 4: "requests ?es = replicate (length (polls ?es)) (poll_request i)"
    using d by (simp add: p q)
  have 5: "length (polls ?es) \<le> Suc n" using e by (simp add: p)
  have 6: "is_success r \<longleftrightarrow> (\<exists>fr \<in> set (polls ?es). observes env ''redacted'' fr)"
    using f ns(2) by (simp add: p)
  have 7: "is_failure r \<longleftrightarrow> (\<exists>fr \<in> set (polls ?es). observes env ''redaction_failed'' fr)"
    using g ns(3) by (simp add: p)
  have 8: "\<forall>fr \<in> set (polls ?es). \<forall>e. poll_outcome env fr = Inl e \<longrightarrow> r = Inl e"
    using h assms(1) by (simp add: p)
  have 9: "length (polls ?es) = Suc n \<and> (\<forall>fr \<in> set (polls ?es). \<not> stops env fr)
            \<longrightarrow> r = Inl timeout_error"
    using k by (simp add: p)
  from 1 2 3 4 5 6 7 8 9 show ?thesis unfolding run_ok_def by blast
qed

lemma fetch_store:
  "fetch nt rq w = (fr, w1) \<Longrightarrow> nt rq (store w) = (fr, store w1)"
  by (auto simp: fetch_def split: prod.splits)

lemma loop_spec:
  "\<exists>es. log (snd (waitForRedaction_loop env i cb a w)) = log w @ es
        \<and> run_ok env i cb (maxAttempts - a) (fst (waitForRedaction_loop env i cb a w)) es
        \<and> net_run (c_net env) (poll_request i) (length (polls es)) (store w)
            = (polls es, store (snd (waitForRedaction_loop env i cb a w)))"
proof (induction "maxAttempts - a" arbitrary: a w)
  case 0
  then have "\<not> a < maxAttempts" by simp
  then show ?case using run_ok_done [of env i cb] 0 by (simp add: loop_done)
next
  case (Suc n)
  then have lt: "a < maxAttempts" and n: "maxAttempts - (a + 1) = n" by simp_all
  obtain fr w1 where f: "fetch (c_net env) (poll_request i) w = (fr, w1)"
    by (cases "fetch (c_net env) (poll_request i) w") auto
  note l1 = fetch_appends [OF f]
  note s1 = fetch_store [OF f]
  note step = loop_step [OF lt f, of cb]
  show ?case
  proof (cases "poll_outcome env fr")
    case (Inl e)
    have "log (snd (waitForRedaction_loop env i cb a w)) = log w @ [Fetch (poll_request i) fr]"
      using step l1 Inl by simp
    moreover have "run_ok env i cb (Suc n) (fst (waitForRedaction_loop env i cb a w))
                     [Fetch (poll_request i) fr]"
      using step run_ok_throw [OF Inl, of i cb n] Inl by simp
    moreover have "net_run (c_net env) (poll_request i) (length (polls [Fetch (poll_request i) fr]))
                     (store w)
                   = (polls [Fetch (poll_request i) fr],
                      store (snd (waitForRedaction_loop env i cb a w)))"
      using step s1 Inl by simp
    ultimately show ?thesis using Suc(2) [symmetric] by metis
  next
    case (Inr p)
    obtain doc st where p: "p = (doc, st)" by (cases p) auto
    have po: "poll_outcome env fr = Inr (doc, st)" using Inr p by simp
    consider (s) "st = Some (JStr ''redacted'')" | (f) "st = Some (JStr ''redaction_failed'')"
      | (c) "st \<noteq> Some (JStr ''redacted'')" "st \<noteq> Some (JStr ''redaction_failed'')" by blast
    then show ?thesis
    proof cases
      case s
      let ?es = "Fetch (poll_request i) fr # progress_log cb (Some (JStr ''redacted''))"
      have "log (snd (waitForRedaction_loop env i cb a w)) = log w @ ?es"
        using step l1 po s by (simp add: add_log_def)
      moreover have "run_ok env i cb (Suc n) (fst (waitForRedaction_loop env i cb a w)) ?es"
        using step po s run_ok_success [of env fr doc i cb n] by simp
      moreover have "net_run (c_net env) (poll_request i) (length (polls ?es)) (store w)
                     = (polls ?es, store (snd (waitForRedaction_loop env i cb a w)))"
        using step s1 po s progress_log_requests [of cb "Some (JStr ''redacted'')"]
        by (simp add: add_log_def)
      ultimately show ?thesis using Suc(2) [symmetric] by metis
    next
      case f
      let ?es = "Fetch (poll_request i) fr # progress_log cb (Some (JStr ''redaction_failed''))"
      have "log (snd (waitForRedaction_loop env i cb a w)) = log w @ ?es"
        using step l1 po f by (simp add: add_log_def)
      moreover have "run_ok env i cb (Suc n) (fst (waitForRedaction_loop env i cb a w)) ?es"
        using step po f run_ok_failure [of env fr doc i cb n] by simp
      moreover have "net_run (c_net env) (poll_request i) (length (polls ?es)) (store w)
                     = (polls ?es, store (snd (waitForRedaction_loop env i cb a w)))"
        using step s1 po f progress_log_requests [of cb "Some (JStr ''redaction_failed'')"]
        by (simp add: add_log_def)
      ultimately show ?thesis using Suc(2) [symmetric] by metis
    next
      case c
      let ?w3 = "add_log [Sleep 2000] (add_log (progress_log cb st) w1)"
      obtain r' w'' where rec: "waitForRedaction_loop env i cb (a + 1) ?w3 = (r', w'')"
        by (cases "waitForRedaction_loop env i cb (a + 1) ?w3") auto
      from Suc(1) [OF n [symmetric], of ?w3] obtain es where
        es: "log w'' = log ?w3 @ es" "run_ok env i cb n r' es"
            "net_run (c_net env) (poll_request i) (length (polls es)) (store ?w3)
               = (polls es, store w'')"
        using n rec by auto
      let ?es = "Fetch (poll_request i) fr # progress_log cb st @ Sleep 2000 # es"
      have eq: "waitForRedaction_loop env i cb a w = (r', w'')"
        using step po c rec by simp
      have p: "polls (progress_log cb st @ Sleep 2000 # es) = polls es"
        using progress_log_requests [of cb st] by (simp add: polls_append)
      have st3: "store ?w3 = store w1" by (simp add: add_log_def)
      have "log (snd (waitForRedaction_loop env i cb a w)) = log w @ ?es"
        using es(1) l1 by (simp add: eq add_log_def)
      moreover have "run_ok env i cb (Suc n) (fst (waitForRedaction_loop env i cb a w)) ?es"
        using run_ok_continue [OF po c es(2)] by (simp add: eq)
      moreover have "net_run (c_net env) (poll_request i) (length (polls ?es)) (store w)
                     = (polls ?es, store (snd (waitForRedaction_loop env i cb a w)))"
        using es(3) s1 by (simp add: eq p st3)
      ultimately show ?thesis using Suc(2) [symmetric] by metis
    qed
  qed
qed




subsection \<open>The upload zone\<close>

lemma upload_requests_append:
  "upload_requests (xs @ ys) = upload_requests xs @ upload_requests ys"
  by (simp add: upload_requests_def requests_append)

lemma upload_requests_polls:
  "requests es = replicate k (poll_request i) \<Longrightarrow> upload_requests es = []"
  by (simp add: upload_requests_def poll_request_def)

lemma uploadDocument_log:
  "\<exists>fr. log (snd (uploadDocument env file w)) = log w @ [Fetch (upload_request_of file) fr]"
  by (simp add: uploadDocument_def fetch_def upload_request_of_def API_BASE_URL_def
      split: prod.splits)

lemma waitForRedaction_log:
  "\<exists>es. log (snd (waitForRedaction env i cb w)) = log w @ es \<and> upload_requests es = []"
proof -
  obtain es where es: "log (snd (waitForRedaction env i cb w)) = log w @ es"
    "requests es = replicate (length (polls es)) (poll_request i)"
    using loop_spec [of env i cb 0 w] by (auto simp: waitForRedaction_def run_ok_def)
  from es(1) upload_requests_polls [OF es(2)] show ?thesis by blast
qed

lemma upload_requests_simps:
  "upload_requests [] = []"
  "upload_requests (Toast k m # es) = upload_requests es"
  "upload_requests (SetIsUploading b # es) = upload_requests es"
  "upload_requests (SetIsDragging b # es) = upload_requests es"
  "upload_requests (PreventDefault # es) = upload_requests es"
  "upload_requests (ResetInput # es) = upload_requests es"
  "upload_requests (OnUploadComplete # es) = upload_requests es"
  "upload_requests (SetTimeout n e # es) = upload_requests es"
  "upload_requests (Fetch (upload_request_of file) fr # es) = upload_request_of file # upload_requests es"
  by (simp_all add: upload_requests_def upload_request_of_def)

lemma handleFileUpload_valid:
  assumes v: "validateFile file = None"
  shows "\<exists>es. log (handleFileUpload env cb file w) = log w @ es
              \<and> upload_requests es = [upload_request_of file]"
proof -
  let ?w0 = "add_log [SetIsUploading True] w"
  obtain r w1 where u: "uploadDocument env file ?w0 = (r, w1)"
    by (cases "uploadDocument env file ?w0") auto
  obtain fr where l1: "log w1 = log w @ [SetIsUploading True, Fetch (upload_request_of file) fr]"
    using uploadDocument_log [of env "file" ?w0] u by (auto simp: add_log_def)
  show ?thesis
  proof (cases r)
    case (Inl err)
    then show ?thesis using v u l1
      by (simp add: handleFileUpload_def add_log_def upload_requests_simps)
  next
    case (Inr uploadResult)
    show ?thesis
    proof (cases "get_prop uploadResult ''document_id''")
      case (Inl err)
      then show ?thesis using v u l1 Inr
        by (simp add: handleFileUpload_def add_log_def upload_requests_simps)
    next
      case (Inr documentId)
      let ?w2 = "add_log [Toast toast_success ''File uploaded successfully!'',
                          Toast toast_loading ''Processing redaction...''] w1"
      obtain res w3 where wr: "waitForRedaction env (c_String env documentId)
                                 (Some redaction_progress) ?w2 = (res, w3)"
        by (cases "waitForRedaction env (c_String env documentId) (Some redaction_progress) ?w2")
           auto
      obtain es where es: "log w3 = log ?w2 @ es" "upload_requests es = []"
        using waitForRedaction_log [of env "c_String env documentId" "Some redaction_progress" ?w2]
          wr by auto
      have l3: "log w3 = log w @ ([SetIsUploading True, Fetch (upload_request_of file) fr,
                  Toast toast_success ''File uploaded successfully!'',
                  Toast toast_loading ''Processing redaction...''] @ es)"
        using es(1) l1 by (simp add: add_log_def)
      have up3: "upload_requests ([SetIsUploading True, Fetch (upload_request_of file) fr,
                  Toast toast_success ''File uploaded successfully!'',
                  Toast toast_loading ''Processing redaction...''] @ es @ tl)
                 = upload_request_of file # upload_requests tl" for tl
        using es(2) by (simp add: upload_requests_simps upload_requests_append)
      have fin: "\<exists>es'. log (add_log tl w3) = log w @ es'
                     \<and> upload_requests es' = upload_request_of file # upload_requests tl" for tl
        using l3 up3 [of tl] by (auto simp: add_log_def)
      show ?thesis using v u \<open>r = Inr uploadResult\<close> Inr wr
        apply (simp add: handleFileUpload_def split: sum.splits)
        apply (intro conjI impI allI)
        using fin [of "[Toast toast_error m, SetIsUploading False]" for m]
        using fin [of "[Toast toast_success ''Redaction complete! Redirecting to review...'',
                        OnUploadComplete,
                        SetTimeout 1500 (RouterPush (''/approval/'' @ c_String env documentId)),
                        SetIsUploading False]"]
        using fin [of "[Toast toast_success ''Redaction complete! Redirecting to review...'',
                        SetTimeout 1500 (RouterPush (''/approval/'' @ c_String env documentId)),
                        SetIsUploading False]"]
        apply (auto simp: upload_requests_simps)
        done
    qed
  qed
qed

text \<open>
  C10. As stated the claim fails for a file chosen while an upload is in progress, and for
  every file of a drop after the first: \<open>handleDrop\<close> and \<open>handleFileSelect\<close> return
  when \<open>isUploading\<close> holds and hand only \<open>files[0]\<close> to \<open>handleFileUpload\<close>, so
  such a file gets no request and no message, whether it is allowed or not. Amended: a file
  passes \<open>validateFile\<close> exactly when its type is one of the four and its size is at most
  10,485,760 bytes. For a file that does not pass, \<open>handleFileUpload\<close> shows the error
  toast and does nothing else, so it sends no request; for a file that passes, the requests
  of the run hold exactly one upload request, the \<open>POST\<close> of that file to \<open>/api/upload\<close>,
  and the progress callback it hands to \<open>waitForRedaction\<close> sends none. A drop or a
  selection made while no upload is in progress runs \<open>handleFileUpload\<close> on its first file
  and on no other: when that file does not pass, the error toast is all that is shown and
  no request is sent; when it passes, exactly one upload request is sent, for that file. A
  drop or a selection made while an upload is in progress, and one with no file, shows
  nothing and sends nothing.
\<close>

theorem UploadZone_one_upload:
  "(validateFile file = None
      \<longleftrightarrow> file_type file \<in> {''application/pdf'', ''image/jpeg'', ''image/jpg'', ''image/png''}
          \<and> file_size file \<le> 10485760)
   \<and> (validateFile file \<noteq> None \<longrightarrow>
         new_log w (handleFileUpload env cb file w) = [Toast toast_error (the (validateFile file))]
         \<and> requests (new_log w (handleFileUpload env cb file w)) = [])
   \<and> (validateFile file = None \<longrightarrow>
         upload_requests (new_log w (handleFileUpload env cb file w)) = [upload_request_of file])
   \<and> requests (redaction_progress st) = []
   \<and> handleDrop env cb False (file # others) w
       = handleFileUpload env cb file (add_log [PreventDefault, SetIsDragging False] w)
   \<and> handleFileSelect env cb False (Some (file # others)) w
       = add_log [ResetInput] (handleFileUpload env cb file w)
   \<and> (validateFile file \<noteq> None \<longrightarrow>
         new_log w (handleDrop env cb False (file # others) w)
           = [PreventDefault, SetIsDragging False, Toast toast_error (the (validateFile file))]
         \<and> new_log w (handleFileSelect env cb False (Some (file # others)) w)
           = [Toast toast_error (the (validateFile file)), ResetInput])
   \<and> (validateFile file = None \<longrightarrow>
         upload_requests (new_log w (handleDrop env cb False (file # others) w))
           = [upload_request_of file]
         \<and> upload_requests (new_log w (handleFileSelect env cb False (Some (file # others)) w))
           = [upload_request_of file])
   \<and> new_log w (handleDrop env cb True files w) = [PreventDefault, SetIsDragging False]
   \<and> new_log w (handleFileSelect env cb True sel w) = []
   \<and> new_log w (handleDrop env cb False [] w) = [PreventDefault, SetIsDragging False]
   \<and> new_log w (handleFileSelect env cb False None w) = [ResetInput]
   \<and> new_log w (handleFileSelect env cb False (Some []) w) = [ResetInput]"
proof -
  let ?w0 = "add_log [PreventDefault, SetIsDragging False] w"
  have a: "validateFile file = None
      \<longleftrightarrow> file_type file \<in> {''application/pdf'', ''image/jpeg'', ''image/jpg'', ''image/png''}
          \<and> file_size file \<le> 10485760"
    by (simp add: validateFile_def ALLOWED_TYPES_def MAX_FILE_SIZE_def)
  have b: "new_log w (handleFileUpload env cb file w) = [Toast toast_error (the (validateFile file))]
         \<and> requests (new_log w (handleFileUpload env cb file w)) = []"
    if "validateFile file \<noteq> None"
    using that by (auto simp: handleFileUpload_def add_log_def new_log_def)
  have c: "upload_requests (new_log w (handleFileUpload env cb file w)) = [upload_request_of file]"
    if "validateFile file = None"
    using handleFileUpload_valid [OF that, of env cb w] by (auto simp: new_log_def)
  have d: "requests (redaction_progress st) = []"
    by (simp add: redaction_progress_def)
  have e: "handleDrop env cb False (file # others) w = handleFileUpload env cb file ?w0"
    by (simp add: handleDrop_def Let_def)
  have f: "handleFileSelect env cb False (Some (file # others)) w
           = add_log [ResetInput] (handleFileUpload env cb file w)"
    by (simp add: handleFileSelect_def)
  have g: "new_log w (handleDrop env cb False (file # others) w)
           = [PreventDefault, SetIsDragging False, Toast toast_error (the (validateFile file))]
         \<and> new_log w (handleFileSelect env cb False (Some (file # others)) w)
           = [Toast toast_error (the (validateFile file)), ResetInput]"
    if "validateFile file \<noteq> None"
    using that by (auto simp: e f handleFileUpload_def add_log_def new_log_def)
  have h: "upload_requests (new_log w (handleDrop env cb False (file # others) w))
           = [upload_request_of file]
         \<and> upload_requests (new_log w (handleFileSelect env cb False (Some (file # others)) w))
           = [upload_request_of file]"
    if v: "validateFile file = None"
  proof -
    from handleFileUpload_valid [OF v, of env cb ?w0] obtain es where
      es: "log (handleFileUpload env cb file ?w0) = log ?w0 @ es"
          "upload_requests es = [upload_request_of file]"
      by blast
    from es(1) have "new_log w (handleFileUpload env cb file ?w0)
                     = PreventDefault # SetIsDragging False # es"
      by (simp add: new_log_def add_log_def)
    with es(2) have 1: "upload_requests (new_log w (handleDrop env cb False (file # others) w))
                        = [upload_request_of file]"
      by (simp add: e upload_requests_simps)
    from handleFileUpload_valid [OF v, of env cb w] obtain es' where
      es': "log (handleFileUpload env cb file w) = log w @ es'"
           "upload_requests es' = [upload_request_of file]"
      by blast
    from es'(1) have "new_log w (add_log [ResetInput] (handleFileUpload env cb file w))
                      = es' @ [ResetInput]"
      by (simp add: new_log_def add_log_def)
    with es'(2) have 2:
      "upload_requests (new_log w (handleFileSelect env cb False (Some (file # others)) w))
       = [upload_request_of file]"
      by (simp add: f upload_requests_append upload_requests_simps)
    from 1 2 show ?thesis by simp
  qed
  have i: "new_log w (handleDrop env cb True files w) = [PreventDefault, SetIsDragging False]"
    by (simp add: handleDrop_def Let_def add_log_def new_log_def)
  have j: "new_log w (handleFileSelect env cb True sel w) = []"
    by (simp add: handleFileSelect_def new_log_def)
  have k: "new_log w (handleDrop env cb False [] w) = [PreventDefault, SetIsDragging False]"
    by (simp add: handleDrop_def Let_def add_log_def new_log_def)
  have l: "new_log w (handleFileSelect env cb False None w) = [ResetInput]"
    by (simp add: handleFileSelect_def add_log_def new_log_def)
  have m: "new_log w (handleFileSelect env cb False (Some []) w) = [ResetInput]"
    by (simp add: handleFileSelect_def add_log_def new_log_def)
  from a b c d e f g h i j k l m show ?thesis by blast
qed

theorem UploadZone_one_upload_witness:
  "validateFile pdf_file = None
   \<and> upload_requests (new_log (world_of ''uploaded'')
        (handleFileUpload (direct status_net) True pdf_file (world_of ''uploaded'')))
      = [upload_request_of pdf_file]
   \<and> upload_requests (new_log (world_of ''uploaded'')
        (handleDrop (direct status_net) True False [pdf_file, exe_file] (world_of ''uploaded'')))
      = [upload_request_of pdf_file]
   \<and> upload_requests (new_log (world_of ''uploaded'')
        (handleFileSelect (direct status_net) True False (Some [pdf_file, exe_file])
           (world_of ''uploaded'')))
      = [upload_request_of pdf_file]
   \<and> validateFile exe_file \<noteq> None
   \<and> new_log (world_of ''uploaded'')
        (handleFileUpload (direct status_net) True exe_file (world_of ''uploaded''))
      = [Toast toast_error ''Invalid file type. Only PDF, JPG, and PNG files are allowed.'']
   \<and> new_log (world_of ''uploaded'')
        (handleDrop (direct status_net) True False [exe_file, pdf_file] (world_of ''uploaded''))
      = [PreventDefault, SetIsDragging False,
         Toast toast_error ''Invalid file type. Only PDF, JPG, and PNG files are allowed.'']
   \<and> new_log (world_of ''uploaded'')
        (handleFileSelect (direct status_net) True False (Some [exe_file, pdf_file])
           (world_of ''uploaded''))
      = [Toast toast_error ''Invalid file type. Only PDF, JPG, and PNG files are allowed.'',
         ResetInput]"
proof -
  have v: "validateFile pdf_file = None"
    by (simp add: validateFile_def pdf_file_def ALLOWED_TYPES_def MAX_FILE_SIZE_def)
  have x: "validateFile exe_file
           = Some ''Invalid file type. Only PDF, JPG, and PNG files are allowed.''"
    by (simp add: validateFile_def exe_file_def ALLOWED_TYPES_def)
  have x': "validateFile exe_file \<noteq> None" by (simp add: x)
  from v UploadZone_one_upload
         [of pdf_file "world_of ''uploaded''" "direct status_net" True None "[exe_file]" "[]" None]
  have p: "upload_requests (new_log (world_of ''uploaded'')
        (handleFileUpload (direct status_net) True pdf_file (world_of ''uploaded'')))
      = [upload_request_of pdf_file]"
    "upload_requests (new_log (world_of ''uploaded'')
        (handleDrop (direct status_net) True False [pdf_file, exe_file] (world_of ''uploaded'')))
      = [upload_request_of pdf_file]"
    "upload_requests (new_log (world_of ''uploaded'')
        (handleFileSelect (direct status_net) True False (Some [pdf_file, exe_file])
           (world_of ''uploaded'')))
      = [upload_request_of pdf_file]"
    by blast+
  from x' UploadZone_one_upload
         [of exe_file "world_of ''uploaded''" "direct status_net" True None "[pdf_file]" "[]" None]
  have q: "new_log (world_of ''uploaded'')
        (handleFileUpload (direct status_net) True exe_file (world_of ''uploaded''))
      = [Toast toast_error (the (validateFile exe_file))]"
    "new_log (world_of ''uploaded'')
        (handleDrop (direct status_net) True False [exe_file, pdf_file] (world_of ''uploaded''))
      = [PreventDefault, SetIsDragging False, Toast toast_error (the (validateFile exe_file))]"
    "new_log (world_of ''uploaded'')
        (handleFileSelect (direct status_net) True False (Some [exe_file, pdf_file])
           (world_of ''uploaded''))
      = [Toast toast_error (the (validateFile exe_file)), ResetInput]"
    by blast+
  show ?thesis by (simp add: v p q x)
qed

text \<open>The claim of C10 as stated, refuted: an allowed file dropped while an upload is in
  progress, and an allowed file dropped as the second of two, get no upload request, and
  the first of them gets no message either.\<close>

theorem UploadZone_busy_drop_counterexample:
  "validateFile pdf_file = None
   \<and> new_log (world_of ''uploaded'')
        (handleDrop (direct status_net) True True [pdf_file] (world_of ''uploaded''))
      = [PreventDefault, SetIsDragging False]
   \<and> upload_requests (new_log (world_of ''uploaded'')
        (handleDrop (direct status_net) True True [pdf_file] (world_of ''uploaded''))) = []
   \<and> upload_requests (new_log (world_of ''uploaded'')
        (handleDrop (direct status_net) True False [exe_file, pdf_file] (world_of ''uploaded'')))
      = []"
  by (simp add: validateFile_def pdf_file_def exe_file_def ALLOWED_TYPES_def MAX_FILE_SIZE_def
      handleDrop_def handleFileUpload_def Let_def add_log_def new_log_def world_of_def
      upload_requests_def)

subsection \<open>The preview pages\<close>













subsection \<open>The validation law\<close>

text \<open>
  C1. For a document the pipeline processes: it ends \<open>redacted\<close> only with a redacted
  output in staging on which the re-scan finds nothing; when the re-scan of the renderer's
  output reports a finding or fails, it ends \<open>redaction_failed\<close> with the staging object
  purged and no vault location set; it never ends in another status.
\<close>

theorem validation_law:
  assumes "doc_status d = uploaded"
      and "run_pipeline st d staging = (err, d', staging')"
  shows "(doc_status d' = redacted \<longrightarrow>
            (\<exists>out. staging' (staging_location d') = Some out \<and> scan st out = Inr []))
       \<and> (\<forall>original out n.
             staging (staging_location d) = Some original \<and> rendered st original = Inr (out, n)
             \<and> scan st out \<noteq> Inr []
             \<longrightarrow> doc_status d' = redaction_failed \<and> err \<noteq> None
                 \<and> staging' (staging_location d') = None
                 \<and> vault_location d' = vault_location d)
       \<and> (\<forall>original out n.
             staging (staging_location d) = Some original \<and> rendered st original = Inr (out, n)
             \<and> scan st out = Inr []
             \<longrightarrow> doc_status d' = redacted \<and> staging' (staging_location d') = Some out
                 \<and> pii_count d' = Some n)
       \<and> (doc_status d' = redacted \<or> doc_status d' = redaction_failed)"
proof (cases "staging (staging_location d)")
  case None
  then show ?thesis using assms by (auto simp: run_pipeline_def)
next
  case (Some original)
  show ?thesis
  proof (cases "rendered st original")
    case (Inl e)
    then show ?thesis using assms Some by (auto simp: run_pipeline_def redact_def)
  next
    case (Inr p)
    obtain out n where p: "p = (out, n)" by (cases p) auto
    show ?thesis
    proof (cases "scan st out")
      case (Inl e)
      then show ?thesis using assms Some Inr p
        by (auto simp: run_pipeline_def redact_def validate_def)
    next
      case fs: (Inr findings)
      then show ?thesis using assms Some Inr p
        by (cases findings) (auto simp: run_pipeline_def redact_def validate_def)
    qed
  qed
qed

theorem validation_law_witness:
  "doc_status tax_form = uploaded
   \<and> staged (staging_location tax_form) = Some [1, 2, 3]
   \<and> rendered (toy_stages True) [1, 2, 3] = Inr ([1, 2, 3], 1)
   \<and> scan (toy_stages True) [1, 2, 3] \<noteq> Inr []
   \<and> doc_status (fst (snd (run_pipeline (toy_stages True) tax_form staged))) = redaction_failed
   \<and> rendered (toy_stages False) [1, 2, 3] = Inr ([], 1)
   \<and> scan (toy_stages False) [] = Inr []
   \<and> doc_status (fst (snd (run_pipeline (toy_stages False) tax_form staged))) = redacted"
proof -
  have u: "doc_status tax_form = uploaded" by (simp add: tax_form_def)
  have s: "staged (staging_location tax_form) = Some [1, 2, 3]"
    by (simp add: staged_def tax_form_def)
  have r1: "rendered (toy_stages True) [1, 2, 3] = Inr ([1, 2, 3], 1)"
    by (simp add: rendered_def toy_stages_def)
  have s1: "scan (toy_stages True) [1, 2, 3] \<noteq> Inr []"
    by (simp add: scan_def toy_stages_def)
  have r2: "rendered (toy_stages False) [1, 2, 3] = Inr ([], 1)"
    by (simp add: rendered_def toy_stages_def)
  have s2: "scan (toy_stages False) [] = Inr []"
    by (simp add: scan_def toy_stages_def)
  obtain e1 d1 g1 where p1: "run_pipeline (toy_stages True) tax_form staged = (e1, d1, g1)"
    by (cases "run_pipeline (toy_stages True) tax_form staged") auto
  obtain e2 d2 g2 where p2: "run_pipeline (toy_stages False) tax_form staged = (e2, d2, g2)"
    by (cases "run_pipeline (toy_stages False) tax_form staged") auto
  from validation_law [OF u p1] s r1 s1 have "doc_status d1 = redaction_failed" by blast
  moreover from validation_law [OF u p2] s r2 s2 have "doc_status d2 = redacted" by blast
  ultimately show ?thesis using u s r1 s1 r2 s2 p1 p2 by simp
qed

end
